theory Spec2Isabelle
  imports Main "HOL-Library.List_Lexorder" "HOL-Library.Char_ord"
begin

section \<open>Entities\<close>

text \<open>
  The three TypeORM entities of \<^verbatim>\<open>src/entities\<close>.  Columns keep the names of the
  source, prefixed by the entity (record fields share one name space).  JavaScript
  numbers that hold identifiers, limits and offsets are integers; \<^verbatim>\<open>Date\<close> values are
  integers (milliseconds); a \<^verbatim>\<open>jsonb\<close> column is an association list of keys and
  serialised values; a nullable column, an optional property and a relation that may
  not be loaded are \<open>option\<close>s (\<open>None\<close> is \<^verbatim>\<open>undefined\<close> or \<^verbatim>\<open>null\<close>).
  The columns \<^verbatim>\<open>type\<close> and \<^verbatim>\<open>status\<close> of a component are \<^verbatim>\<open>text\<close> columns, so they
  are strings here; the TypeScript enums only name some of their values.
\<close>

type_synonym json_object = "(string \<times> string) list"

record UIRegistry =
  reg_id :: int
  reg_name :: string
  reg_slug :: string
  reg_description :: "string option"
  reg_framework :: string
  reg_npmPackage :: "string option"
  reg_installCommand :: "string option"
  reg_docsUrl :: "string option"
  reg_isActive :: bool
  reg_metadata :: json_object
  reg_createdAt :: int
  reg_updatedAt :: int

record UIComponentExample =
  ex_id :: int
  ex_componentId :: int
  ex_name :: string
  ex_slug :: string
  ex_description :: "string option"
  ex_language :: "string option"
  ex_code :: string
  ex_metadata :: json_object
  ex_createdAt :: int
  ex_updatedAt :: int

record UIComponent =
  comp_id :: int
  comp_registryId :: int
  comp_name :: string
  comp_slug :: string
  comp_type :: string
  comp_description :: "string option"
  comp_dependencies :: "string list"
  comp_status :: string
  comp_metadata :: json_object
  comp_createdAt :: int
  comp_updatedAt :: int
  comp_registry :: "UIRegistry option"
  comp_examples :: "UIComponentExample list option"

text \<open>The values of \<^verbatim>\<open>enum ComponentType\<close> and \<^verbatim>\<open>enum ComponentStatus\<close>.\<close>

definition ComponentType :: "string list" where
  "ComponentType = [''input-control'', ''container'', ''navigational'', ''informational'', ''biz'']"

definition ComponentStatus :: "string list" where
  "ComponentStatus = [''stable'', ''beta'', ''alpha'', ''deprecated'']"

section \<open>Output items of the registry service\<close>

record ComponentExample =
  cex_id :: int
  cex_componentId :: int
  cex_name :: string
  cex_description :: "string option"
  cex_language :: string
  cex_code :: string
  cex_isPrimary :: bool
  cex_createdAt :: int
  cex_updatedAt :: int

record ComponentItem =
  item_id :: int
  item_registryId :: int
  item_registrySlug :: string
  item_registryName :: string
  item_slug :: string
  item_name :: string
  item_type :: string
  item_description :: "string option"
  item_dependencies :: "string list"
  item_status :: string
  item_metadata :: json_object
  item_exampleCount :: nat
  item_addCommandArgument :: string
  item_createdAt :: int
  item_updatedAt :: int
  item_examples :: "ComponentExample list"

text \<open>\<^verbatim>\<open>x || undefined\<close> on an optional string: the empty string is falsy.\<close>

definition orUndefined :: "string option \<Rightarrow> string option" where
  "orUndefined x = (case x of None \<Rightarrow> None | Some s \<Rightarrow> if s = [] then None else Some s)"

text \<open>\<^verbatim>\<open>name.replace(/^@/, '')\<close>: one \<^verbatim>\<open>@\<close> at the start of the string is removed.\<close>

fun cleanName :: "string \<Rightarrow> string" where
  "cleanName [] = []"
| "cleanName (c # cs) = (if c = CHR ''@'' then cs else c # cs)"

definition formatExample :: "UIComponentExample \<Rightarrow> ComponentExample" where
  "formatExample example =
     \<lparr> cex_id = ex_id example,
       cex_componentId = ex_componentId example,
       cex_name = ex_name example,
       cex_description = orUndefined (ex_description example),
       cex_language = (case orUndefined (ex_language example) of
                         None \<Rightarrow> ''typescript'' | Some l \<Rightarrow> l),
       cex_code = ex_code example,
       cex_isPrimary = False,
       cex_createdAt = ex_createdAt example,
       cex_updatedAt = ex_updatedAt example \<rparr>"

definition formatComponent :: "UIComponent \<Rightarrow> ComponentItem" where
  "formatComponent component =
     (let registrySlug = (case comp_registry component of None \<Rightarrow> [] | Some r \<Rightarrow> reg_slug r);
          registryName = (case comp_registry component of None \<Rightarrow> [] | Some r \<Rightarrow> reg_name r)
      in \<lparr> item_id = comp_id component,
           item_registryId = comp_registryId component,
           item_registrySlug = registrySlug,
           item_registryName = registryName,
           item_slug = comp_slug component,
           item_name = comp_name component,
           item_type = comp_type component,
           item_description = orUndefined (comp_description component),
           item_dependencies = comp_dependencies component,
           item_status = comp_status component,
           item_metadata = comp_metadata component,
           item_exampleCount = (case comp_examples component of None \<Rightarrow> 0 | Some es \<Rightarrow> length es),
           item_addCommandArgument =
             (if registrySlug \<noteq> [] then ''@'' @ registrySlug @ ''/'' @ comp_slug component
              else comp_slug component),
           item_createdAt = comp_createdAt component,
           item_updatedAt = comp_updatedAt component,
           item_examples = (case comp_examples component of None \<Rightarrow> []
                            | Some es \<Rightarrow> map formatExample es) \<rparr>)"

text \<open>
  The item built for one component by the handler of the tool
  \<^verbatim>\<open>get_item_examples_from_registries\<close> (the function mapped over \<^verbatim>\<open>fullComponents\<close>);
  \<open>examples\<close> are the matched examples of the whole search.
\<close>

definition componentItems :: "ComponentExample list \<Rightarrow> UIComponent \<Rightarrow> ComponentItem" where
  "componentItems examples component =
     (let examplesForComponent = filter (\<lambda>e. cex_componentId e = comp_id component) examples
      in \<lparr> item_id = comp_id component,
           item_registryId = comp_registryId component,
           item_registrySlug = (case comp_registry component of None \<Rightarrow> [] | Some r \<Rightarrow> reg_slug r),
           item_registryName = (case comp_registry component of None \<Rightarrow> [] | Some r \<Rightarrow> reg_name r),
           item_slug = comp_slug component,
           item_name = comp_name component,
           item_type = comp_type component,
           item_description = orUndefined (comp_description component),
           item_dependencies = comp_dependencies component,
           item_status = comp_status component,
           item_metadata = comp_metadata component,
           item_exampleCount = length examplesForComponent,
           item_addCommandArgument =
             (case comp_registry component of
                None \<Rightarrow> comp_slug component
              | Some r \<Rightarrow> if reg_slug r \<noteq> [] then ''@'' @ reg_slug r @ ''/'' @ comp_slug component
                          else comp_slug component),
           item_createdAt = comp_createdAt component,
           item_updatedAt = comp_updatedAt component,
           item_examples = examplesForComponent \<rparr>)"

section \<open>The store: SQL conditions and queries\<close>

subsection \<open>\<^verbatim>\<open>ILIKE\<close>\<close>

text \<open>
  The service hands the text filter to the store as the pattern \<^verbatim>\<open>%query%\<close> of an
  \<^verbatim>\<open>ILIKE\<close> comparison.  In a \<^verbatim>\<open>LIKE\<close> pattern \<^verbatim>\<open>%\<close> stands for any run of characters,
  \<^verbatim>\<open>_\<close> for any one character, and a backslash makes the character after it literal.
  \<^verbatim>\<open>ILIKE\<close> compares without regard to case; letters are the ASCII letters here.
  A pattern that ends in a lone backslash is an error in the store; every pattern of
  this program ends in \<^verbatim>\<open>%\<close>, and the equation for it below is never reached.
\<close>

definition lower :: "char \<Rightarrow> char" where
  "lower c = (case map_of (zip ''ABCDEFGHIJKLMNOPQRSTUVWXYZ'' ''abcdefghijklmnopqrstuvwxyz'') c of
                None \<Rightarrow> c | Some d \<Rightarrow> d)"

definition backslash :: char where
  "backslash = CHR 0x5C"

fun sql_like :: "string \<Rightarrow> string \<Rightarrow> bool" where
  "sql_like [] t = (t = [])"
| "sql_like (p # ps) t =
     (if p = CHR ''%'' then
        (sql_like ps t \<or> (case t of [] \<Rightarrow> False | _ # ts \<Rightarrow> sql_like (p # ps) ts))
      else if p = CHR ''_'' then
        (case t of [] \<Rightarrow> False | _ # ts \<Rightarrow> sql_like ps ts)
      else if p = backslash then
        (case ps of [] \<Rightarrow> False
         | q # qs \<Rightarrow> (case t of [] \<Rightarrow> False | c # ts \<Rightarrow> c = q \<and> sql_like qs ts))
      else
        (case t of [] \<Rightarrow> False | c # ts \<Rightarrow> c = p \<and> sql_like ps ts))"

definition sql_ilike :: "string \<Rightarrow> string \<Rightarrow> bool" where
  "sql_ilike pattern t = sql_like (map lower pattern) (map lower t)"

subsection \<open>Conditions\<close>

text \<open>
  The query builder receives each condition as a fragment of SQL text and joins the
  fragments of one query with \<^verbatim>\<open>AND\<close>, adding no parentheses of its own.  A fragment is
  kept as the source writes it: atoms joined by \<^verbatim>\<open>OR\<close>, with the parentheses that the
  source text has (\<open>Par\<close>) and only those.
\<close>

datatype 'a sql_expr = Atom 'a | OrE "'a sql_expr" "'a sql_expr" | Par "'a sql_expr"

datatype reg_atom = RegNameIn "string list" | RegSlugIn "string list" | RegIsActiveTrue

datatype comp_atom =
    CompRegistryIdIn "int list"
  | CompNameILike string
  | CompDescriptionILike string
  | CompSlugILike string

datatype ex_atom =
    ExComponentRegistryIdIn "int list"
  | ExNameILike string
  | ExSlugILike string

datatype order_key = ByName | ByExamplesName

datatype relation = RelRegistry | RelExamples | RelComponent | RelComponentRegistry

record registry_query =
  rq_wheres :: "reg_atom sql_expr list"
  rq_orderBy :: "order_key list"
  rq_take :: "int option"
  rq_skip :: "int option"

record component_query =
  cq_joins :: "relation list"
  cq_wheres :: "comp_atom sql_expr list"
  cq_orderBy :: "order_key list"
  cq_take :: "int option"
  cq_skip :: "int option"

record example_query =
  eq_joins :: "relation list"
  eq_wheres :: "ex_atom sql_expr list"
  eq_orderBy :: "order_key list"
  eq_take :: "int option"

text \<open>
  The value of the joined text on one row.  \<open>v\<close> gives the value of an atom on the
  row (an unknown value, from a \<^verbatim>\<open>NULL\<close> column, counts as false: no condition here
  negates).  \<open>disjuncts\<close> lists the operands of the \<^verbatim>\<open>OR\<close>s a fragment has outside
  parentheses; \<^verbatim>\<open>AND\<close> binds tighter than \<^verbatim>\<open>OR\<close>, so joining two fragments with
  \<^verbatim>\<open>AND\<close> conjoins the last operand of the first with the first operand of the second.
\<close>

fun eval_expr :: "('a \<Rightarrow> bool) \<Rightarrow> 'a sql_expr \<Rightarrow> bool" where
  "eval_expr v (Atom a) = v a"
| "eval_expr v (OrE x y) = (eval_expr v x \<or> eval_expr v y)"
| "eval_expr v (Par x) = eval_expr v x"

fun disjuncts :: "('a \<Rightarrow> bool) \<Rightarrow> 'a sql_expr \<Rightarrow> bool list" where
  "disjuncts v (OrE x y) = disjuncts v x @ disjuncts v y"
| "disjuncts v (Atom a) = [v a]"
| "disjuncts v (Par x) = [eval_expr v x]"

fun and_join :: "bool list \<Rightarrow> bool list \<Rightarrow> bool list" where
  "and_join [] es = es"
| "and_join ds [] = ds"
| "and_join [d] (e # es) = (d \<and> e) # es"
| "and_join (d # ds) es = d # and_join ds es"

fun where_holds :: "('a \<Rightarrow> bool) \<Rightarrow> 'a sql_expr list \<Rightarrow> bool" where
  "where_holds v [] = True"
| "where_holds v (w # ws) = list_ex (\<lambda>b. b) (foldl and_join (disjuncts v w) (map (disjuncts v) ws))"

subsection \<open>The store as the service sees it\<close>

text \<open>
  The repositories are external: each operation either returns rows or throws an
  \<^verbatim>\<open>Error\<close>, of which only the message is read (\<open>Inl\<close> of the message).
\<close>

record store =
  registry_getMany :: "registry_query \<Rightarrow> string + UIRegistry list"
  registry_getCount :: "registry_query \<Rightarrow> string + nat"
  registry_findByIds :: "int list \<Rightarrow> string + UIRegistry list"
  registry_findOneById :: "int \<Rightarrow> string + UIRegistry option"
  component_getMany :: "component_query \<Rightarrow> string + UIComponent list"
  component_getCount :: "component_query \<Rightarrow> string + nat"
  component_findByIds :: "int list \<Rightarrow> string + UIComponent list"
  example_getMany :: "example_query \<Rightarrow> string + UIComponentExample list"

datatype db_call =
    RegistryGetMany registry_query
  | RegistryGetCount registry_query
  | RegistryFindByIds "int list"
  | RegistryFindOneById int
  | ComponentGetMany component_query
  | ComponentGetCount component_query
  | ComponentFindByIds "int list"
  | ExampleGetMany example_query

text \<open>The message with which the store answers a call, if it fails on it.\<close>

definition failure_of :: "string + 'a \<Rightarrow> string option" where
  "failure_of r = (case r of Inl m \<Rightarrow> Some m | Inr _ \<Rightarrow> None)"

fun call_failure :: "store \<Rightarrow> db_call \<Rightarrow> string option" where
  "call_failure st (RegistryGetMany q) = failure_of (registry_getMany st q)"
| "call_failure st (RegistryGetCount q) = failure_of (registry_getCount st q)"
| "call_failure st (RegistryFindByIds ids) = failure_of (registry_findByIds st ids)"
| "call_failure st (RegistryFindOneById i) = failure_of (registry_findOneById st i)"
| "call_failure st (ComponentGetMany q) = failure_of (component_getMany st q)"
| "call_failure st (ComponentGetCount q) = failure_of (component_getCount st q)"
| "call_failure st (ComponentFindByIds ids) = failure_of (component_findByIds st ids)"
| "call_failure st (ExampleGetMany q) = failure_of (example_getMany st q)"

subsection \<open>Asynchronous code that may throw\<close>

text \<open>
  An \<^verbatim>\<open>async\<close> function is the pair of its outcome (\<open>Inl\<close> the message of the error it
  throws, \<open>Inr\<close> the value it returns) and the calls it has made to the store, in order.
\<close>

type_synonym 'a action = "(string + 'a) \<times> db_call list"

definition ret :: "'a \<Rightarrow> 'a action" where
  "ret x = (Inr x, [])"

definition bind :: "'a action \<Rightarrow> ('a \<Rightarrow> 'b action) \<Rightarrow> 'b action" where
  "bind m f = (case m of
                 (Inl e, tr) \<Rightarrow> (Inl e, tr)
               | (Inr x, tr) \<Rightarrow> (case f x of (r, tr') \<Rightarrow> (r, tr @ tr')))"

text \<open>\<^verbatim>\<open>try { ... } catch (error) { throw new Error(`prefix${error.message}`) }\<close>\<close>

definition rethrow :: "string \<Rightarrow> 'a action \<Rightarrow> 'a action" where
  "rethrow prefix m = (case m of
                         (Inl e, tr) \<Rightarrow> (Inl (prefix @ e), tr)
                       | (Inr x, tr) \<Rightarrow> (Inr x, tr))"

definition getManyRegistries :: "store \<Rightarrow> registry_query \<Rightarrow> UIRegistry list action" where
  "getManyRegistries st q = (registry_getMany st q, [RegistryGetMany q])"

definition getCountRegistries :: "store \<Rightarrow> registry_query \<Rightarrow> nat action" where
  "getCountRegistries st q = (registry_getCount st q, [RegistryGetCount q])"

definition findRegistriesByIds :: "store \<Rightarrow> int list \<Rightarrow> UIRegistry list action" where
  "findRegistriesByIds st ids = (registry_findByIds st ids, [RegistryFindByIds ids])"

definition findOneRegistryById :: "store \<Rightarrow> int \<Rightarrow> UIRegistry option action" where
  "findOneRegistryById st i = (registry_findOneById st i, [RegistryFindOneById i])"

definition getManyComponents :: "store \<Rightarrow> component_query \<Rightarrow> UIComponent list action" where
  "getManyComponents st q = (component_getMany st q, [ComponentGetMany q])"

definition getCountComponents :: "store \<Rightarrow> component_query \<Rightarrow> nat action" where
  "getCountComponents st q = (component_getCount st q, [ComponentGetCount q])"

definition findComponentsByIds :: "store \<Rightarrow> int list \<Rightarrow> UIComponent list action" where
  "findComponentsByIds st ids = (component_findByIds st ids, [ComponentFindByIds ids])"

definition getManyExamples :: "store \<Rightarrow> example_query \<Rightarrow> UIComponentExample list action" where
  "getManyExamples st q = (example_getMany st q, [ExampleGetMany q])"

section \<open>The registry service\<close>

record 'a SearchResult =
  items :: "'a list"
  totalCount :: nat
  hasMore :: bool
  limit :: int
  offset :: "int option"

record SearchOptions =
  opt_limit :: "int option"
  opt_type :: "string option"
  opt_status :: "string option"

record RegistryItem =
  ritem_id :: int
  ritem_slug :: string
  ritem_name :: string
  ritem_description :: "string option"
  ritem_framework :: string
  ritem_npmPackage :: "string option"
  ritem_installCommand :: "string option"
  ritem_docsUrl :: "string option"
  ritem_isOfficial :: bool
  ritem_componentCount :: nat
  ritem_createdAt :: int
  ritem_updatedAt :: int
  ritem_components :: "ComponentItem list option"

text \<open>
  A default parameter value, and a destructuring default: used when the argument is
  \<^verbatim>\<open>undefined\<close>.
\<close>

definition withDefault :: "'a \<Rightarrow> 'a option \<Rightarrow> 'a" where
  "withDefault d x = (case x of None \<Rightarrow> d | Some v \<Rightarrow> v)"

text \<open>Truthiness of an optional string, of an optional list and of a number.\<close>

definition truthy :: "string option \<Rightarrow> bool" where
  "truthy x = (case x of None \<Rightarrow> False | Some s \<Rightarrow> s \<noteq> [])"

definition nonEmpty :: "'a list option \<Rightarrow> bool" where
  "nonEmpty x = (case x of None \<Rightarrow> False | Some xs \<Rightarrow> length xs > 0)"

text \<open>\<^verbatim>\<open>[...new Set(xs)]\<close>: the first occurrence of each element, in order.\<close>

definition newSet :: "'a list \<Rightarrow> 'a list" where
  "newSet xs = rev (remdups (rev xs))"

text \<open>\<^verbatim>\<open>new Map(registries.map(r => [r.id, r]))\<close>: a later entry replaces an earlier one.\<close>

definition registryMap :: "UIRegistry list \<Rightarrow> int \<Rightarrow> UIRegistry option" where
  "registryMap registries = map_of (rev (map (\<lambda>r. (reg_id r, r)) registries))"

text \<open>
  \<open>formatRegistry\<close>; the relation \<^verbatim>\<open>registry.components\<close> of the entity is the second
  argument (\<open>None\<close> when it is not loaded).
\<close>

definition formatRegistry :: "UIRegistry \<Rightarrow> UIComponent list option \<Rightarrow> bool \<Rightarrow> RegistryItem" where
  "formatRegistry registry components includeComponents =
     \<lparr> ritem_id = reg_id registry,
       ritem_slug = reg_slug registry,
       ritem_name = reg_name registry,
       ritem_description = orUndefined (reg_description registry),
       ritem_framework = reg_framework registry,
       ritem_npmPackage = orUndefined (reg_npmPackage registry),
       ritem_installCommand = orUndefined (reg_installCommand registry),
       ritem_docsUrl = orUndefined (reg_docsUrl registry),
       ritem_isOfficial = False,
       ritem_componentCount = (case components of None \<Rightarrow> 0 | Some cs \<Rightarrow> length cs),
       ritem_createdAt = reg_createdAt registry,
       ritem_updatedAt = reg_updatedAt registry,
       ritem_components =
         (if includeComponents then map_option (map formatComponent) components else None) \<rparr>"

subsection \<open>\<open>searchAllRegistries\<close>\<close>

definition searchAllRegistries :: "store \<Rightarrow> string list option \<Rightarrow> RegistryItem SearchResult action" where
  "searchAllRegistries st registries =
     rethrow ''Registry search failed: ''
       (let registryQueryBuilder =
              \<lparr> rq_wheres =
                   (if nonEmpty registries then
                      (let cleanNames = map cleanName (the registries)
                       in [OrE (Atom (RegNameIn cleanNames)) (Atom (RegSlugIn cleanNames)),
                           Atom RegIsActiveTrue])
                    else []),
                 rq_orderBy = [ByName], rq_take = None, rq_skip = None \<rparr>
        in bind (getManyRegistries st registryQueryBuilder) (\<lambda>availableRegistries.
             ret \<lparr> items = map (\<lambda>registry. formatRegistry registry None True) availableRegistries,
                   totalCount = length availableRegistries,
                   hasMore = False,
                   limit = int (length availableRegistries),
                   offset = Some 0 \<rparr>))"

subsection \<open>\<open>searchRegistries\<close>\<close>

definition searchRegistries ::
  "store \<Rightarrow> string list option \<Rightarrow> int option \<Rightarrow> int option \<Rightarrow> RegistryItem SearchResult action" where
  "searchRegistries st registryNames limit0 offset0 =
     (let limit = withDefault 50 limit0; offset = withDefault 0 offset0
      in rethrow ''Registry search failed: ''
       (let registryQueryBuilder =
              \<lparr> rq_wheres =
                   (if nonEmpty registryNames then
                      (let cleanNames = map cleanName (the registryNames)
                       in [Par (OrE (Atom (RegNameIn cleanNames)) (Atom (RegSlugIn cleanNames)))])
                    else []),
                 rq_orderBy = [ByName], rq_take = Some limit, rq_skip = Some offset \<rparr>
        in bind (getManyRegistries st registryQueryBuilder) (\<lambda>registries.
             if length registries = 0 then
               ret \<lparr> items = [], totalCount = 0, hasMore = False, limit = limit, offset = Some offset \<rparr>
             else
               (let registryIds = map reg_id registries
                in bind (getManyComponents st
                           \<lparr> cq_joins = [RelExamples],
                             cq_wheres = [Atom (CompRegistryIdIn registryIds)],
                             cq_orderBy = [ByName, ByExamplesName],
                             cq_take = None, cq_skip = None \<rparr>) (\<lambda>componentsWithExamples.
                   (let componentsByRegistryId =
                          (\<lambda>i. filter (\<lambda>c. comp_registryId c = i) componentsWithExamples);
                        countQuery =
                          \<lparr> rq_wheres =
                               (if nonEmpty registryNames then
                                  (let cleanNames = map cleanName (the registryNames)
                                   in [Par (OrE (Atom (RegNameIn cleanNames))
                                                (Atom (RegSlugIn cleanNames)))])
                                else []),
                             rq_orderBy = [], rq_take = None, rq_skip = None \<rparr>
                    in bind (getCountRegistries st countQuery) (\<lambda>totalCount.
                         ret \<lparr> items = map (\<lambda>registry.
                                            formatRegistry registry
                                              (Some (componentsByRegistryId (reg_id registry))) True)
                                          registries,
                               totalCount = totalCount,
                               hasMore = (offset + limit < int totalCount),
                               limit = limit,
                               offset = Some offset \<rparr>)))))))"

subsection \<open>\<open>searchComponents\<close>\<close>

text \<open>
  The registry relation of the fetched components is completed by a second lookup
  (the block after the paged fetch).
\<close>

definition loadMissingRegistries :: "store \<Rightarrow> UIComponent list \<Rightarrow> UIComponent list action" where
  "loadMissingRegistries st components =
     (let componentsWithoutRegistry =
            filter (\<lambda>c. comp_registry c = None \<and> comp_registryId c \<noteq> 0) components
      in if length componentsWithoutRegistry > 0 then
           (let registryIds = newSet (map comp_registryId componentsWithoutRegistry)
            in bind (findRegistriesByIds st registryIds) (\<lambda>registries.
                 ret (map (\<lambda>component.
                             if comp_registry component = None \<and> comp_registryId component \<noteq> 0
                             then component\<lparr> comp_registry :=
                                               registryMap registries (comp_registryId component) \<rparr>
                             else component)
                          components)))
         else ret components)"

text \<open>
  The part of \<open>searchComponents\<close> after the registry identifiers are resolved.
  \<open>registryIds\<close> is \<open>None\<close> when there is no registry filter.
\<close>

definition searchComponentsIn ::
  "store \<Rightarrow> int list option \<Rightarrow> string option \<Rightarrow> int \<Rightarrow> int \<Rightarrow> ComponentItem SearchResult action" where
  "searchComponentsIn st registryIds query lim off =
     (let queryBuilder =
            \<lparr> cq_joins = [RelRegistry, RelExamples],
              cq_wheres =
                (if nonEmpty registryIds then [Atom (CompRegistryIdIn (the registryIds))] else [])
                @ (if truthy query then
                     [Par (OrE (OrE (Atom (CompNameILike (''%'' @ the query @ ''%'')))
                                    (Atom (CompDescriptionILike (''%'' @ the query @ ''%''))))
                               (Atom (CompSlugILike (''%'' @ the query @ ''%''))))]
                   else []),
              cq_orderBy = [ByName, ByExamplesName],
              cq_take = Some lim, cq_skip = Some off \<rparr>
      in bind (getManyComponents st queryBuilder) (\<lambda>components0.
         bind (loadMissingRegistries st components0) (\<lambda>components.
           (let countQuery =
                  \<lparr> cq_joins = [],
                    cq_wheres =
                      (if nonEmpty registryIds then [Atom (CompRegistryIdIn (the registryIds))]
                       else [])
                      @ (if truthy query then
                           [Par (OrE (OrE (Atom (CompNameILike (''%'' @ the query @ ''%'')))
                                          (Atom (CompDescriptionILike (''%'' @ the query @ ''%''))))
                                     (Atom (CompSlugILike (''%'' @ the query @ ''%''))))]
                         else []),
                    cq_orderBy = [], cq_take = None, cq_skip = None \<rparr>
            in bind (getCountComponents st countQuery) (\<lambda>totalCount.
                 ret \<lparr> items = map formatComponent components,
                       totalCount = totalCount,
                       hasMore = (off + lim < int totalCount),
                       limit = lim,
                       offset = Some off \<rparr>)))))"

definition searchComponents ::
  "store \<Rightarrow> string list option \<Rightarrow> string option \<Rightarrow> int option \<Rightarrow> int option
     \<Rightarrow> ComponentItem SearchResult action" where
  "searchComponents st registryNames query limit0 offset0 =
     (let limit = withDefault 50 limit0; offset = withDefault 0 offset0
      in rethrow ''Component search failed: ''
       (let hasRegistryFilter = nonEmpty registryNames;
            cleanNames = (if hasRegistryFilter then Some (map cleanName (the registryNames))
                          else None)
        in if hasRegistryFilter \<and> nonEmpty cleanNames then
             bind (getManyRegistries st
                     \<lparr> rq_wheres = [OrE (Atom (RegNameIn (the cleanNames)))
                                        (Atom (RegSlugIn (the cleanNames)))],
                       rq_orderBy = [], rq_take = None, rq_skip = None \<rparr>) (\<lambda>matchingRegistries.
               (let registryIds = map reg_id matchingRegistries
                in if length registryIds = 0 then
                     ret \<lparr> items = [], totalCount = 0, hasMore = False,
                           limit = limit, offset = Some offset \<rparr>
                   else searchComponentsIn st (Some registryIds) query limit offset))
           else searchComponentsIn st None query limit offset))"

subsection \<open>\<open>searchExamples\<close>\<close>

definition searchExamplesIn ::
  "store \<Rightarrow> int list option \<Rightarrow> string option \<Rightarrow> int \<Rightarrow> ComponentExample list action" where
  "searchExamplesIn st registryIds query lim =
     (let queryBuilder =
            \<lparr> eq_joins = [RelComponent, RelComponentRegistry],
              eq_wheres =
                (if nonEmpty registryIds then [Atom (ExComponentRegistryIdIn (the registryIds))]
                 else [])
                @ (if truthy query then
                     [Par (OrE (Atom (ExNameILike (''%'' @ the query @ ''%'')))
                               (Atom (ExSlugILike (''%'' @ the query @ ''%''))))]
                   else []),
              eq_orderBy = [ByName],
              eq_take = Some lim \<rparr>
      in bind (getManyExamples st queryBuilder) (\<lambda>examples.
           ret (map formatExample examples)))"

definition searchExamples ::
  "store \<Rightarrow> string list option \<Rightarrow> string option \<Rightarrow> SearchOptions \<Rightarrow> ComponentExample list action" where
  "searchExamples st registrySlugs query options =
     (let limit = withDefault 20 (opt_limit options)
      in rethrow ''Example search failed: ''
       (if nonEmpty registrySlugs then
          (let cleanSlugs = map cleanName (the registrySlugs)
           in bind (getManyRegistries st
                      \<lparr> rq_wheres = [OrE (Atom (RegNameIn cleanSlugs)) (Atom (RegSlugIn cleanSlugs))],
                        rq_orderBy = [], rq_take = None, rq_skip = None \<rparr>) (\<lambda>matchingRegistries.
                (let registryIds = map reg_id matchingRegistries
                 in if length registryIds = 0 then ret []
                    else searchExamplesIn st (Some registryIds) query limit)))
        else searchExamplesIn st None query limit))"

section \<open>A relational database as the store\<close>

text \<open>
  The three tables, and the answers of a SQL database, reached through the query
  builder, to the queries above.  Rows of \<^verbatim>\<open>ui_component\<close> are kept as entities whose
  relations are not loaded.  \<open>db_collate\<close> is the order of text in the collation of
  the database: \<open>db_collate db a b\<close> says that \<open>a\<close> does not sort after \<open>b\<close>.
\<close>

record database =
  db_registries :: "UIRegistry list"
  db_components :: "UIComponent list"
  db_examples :: "UIComponentExample list"
  db_now :: int
  db_collate :: "string \<Rightarrow> string \<Rightarrow> bool"

text \<open>
  \<^verbatim>\<open>ORDER BY\<close>: rows are sorted by a key under an order; rows that the order leaves tied
  keep the order they had.  \<^verbatim>\<open>DISTINCT\<close> keeps one of each row.
\<close>

fun insort_by :: "('k \<Rightarrow> 'k \<Rightarrow> bool) \<Rightarrow> ('a \<Rightarrow> 'k) \<Rightarrow> 'a \<Rightarrow> 'a list \<Rightarrow> 'a list" where
  "insort_by le f x [] = [x]"
| "insort_by le f x (y # ys) = (if le (f x) (f y) then x # y # ys else y # insort_by le f x ys)"

definition sort_by :: "('k \<Rightarrow> 'k \<Rightarrow> bool) \<Rightarrow> ('a \<Rightarrow> 'k) \<Rightarrow> 'a list \<Rightarrow> 'a list" where
  "sort_by le f xs = foldr (insort_by le f) xs []"

definition sql_distinct :: "'a list \<Rightarrow> 'a list" where
  "sql_distinct xs = rev (remdups (rev xs))"

fun reg_atom_holds :: "UIRegistry \<Rightarrow> reg_atom \<Rightarrow> bool" where
  "reg_atom_holds r (RegNameIn names) = (reg_name r \<in> set names)"
| "reg_atom_holds r (RegSlugIn names) = (reg_slug r \<in> set names)"
| "reg_atom_holds r RegIsActiveTrue = reg_isActive r"

fun comp_atom_holds :: "UIComponent \<Rightarrow> comp_atom \<Rightarrow> bool" where
  "comp_atom_holds c (CompRegistryIdIn ids) = (comp_registryId c \<in> set ids)"
| "comp_atom_holds c (CompNameILike p) = sql_ilike p (comp_name c)"
| "comp_atom_holds c (CompDescriptionILike p) =
     (case comp_description c of None \<Rightarrow> False | Some d \<Rightarrow> sql_ilike p d)"
| "comp_atom_holds c (CompSlugILike p) = sql_ilike p (comp_slug c)"

fun ex_atom_holds :: "database \<Rightarrow> UIComponentExample \<Rightarrow> ex_atom \<Rightarrow> bool" where
  "ex_atom_holds db e (ExComponentRegistryIdIn ids) =
     list_ex (\<lambda>c. comp_id c = ex_componentId e \<and> comp_registryId c \<in> set ids) (db_components db)"
| "ex_atom_holds db e (ExNameILike p) = sql_ilike p (ex_name e)"
| "ex_atom_holds db e (ExSlugILike p) = sql_ilike p (ex_slug e)"

text \<open>
  \<^verbatim>\<open>take\<close> and \<^verbatim>\<open>skip\<close>.  The query builder writes a \<^verbatim>\<open>LIMIT\<close> only for a limit that is
  truthy, and an \<^verbatim>\<open>OFFSET\<close> only for an offset that is truthy: 0 is as good as none.
  The database takes both as 64-bit integers and refuses a number outside their range;
  it refuses a negative offset, and then a negative limit.
\<close>

definition bigint_range :: "int \<Rightarrow> bool" where
  "bigint_range n = (- 9223372036854775808 \<le> n \<and> n \<le> 9223372036854775807)"

definition clause_of :: "int option \<Rightarrow> int option" where
  "clause_of x = (case x of None \<Rightarrow> None | Some n \<Rightarrow> if n = 0 then None else Some n)"

definition paginate :: "int option \<Rightarrow> int option \<Rightarrow> 'a list \<Rightarrow> string + 'a list" where
  "paginate tk sk rows =
     (if (case clause_of tk of None \<Rightarrow> False | Some n \<Rightarrow> \<not> bigint_range n)
         \<or> (case clause_of sk of None \<Rightarrow> False | Some n \<Rightarrow> \<not> bigint_range n)
      then Inl ''bigint out of range''
      else if (case clause_of sk of None \<Rightarrow> False | Some n \<Rightarrow> n < 0)
      then Inl ''OFFSET must not be negative''
      else if (case clause_of tk of None \<Rightarrow> False | Some n \<Rightarrow> n < 0)
      then Inl ''LIMIT must not be negative''
      else Inr ((case clause_of tk of None \<Rightarrow> (\<lambda>xs. xs) | Some n \<Rightarrow> take (nat n))
                  ((case clause_of sk of None \<Rightarrow> (\<lambda>xs. xs) | Some n \<Rightarrow> drop (nat n)) rows)))"

definition load_component :: "database \<Rightarrow> relation list \<Rightarrow> order_key list \<Rightarrow> UIComponent \<Rightarrow> UIComponent" where
  "load_component db joins orderBy c =
     c\<lparr> comp_registry :=
          (if RelRegistry \<in> set joins
           then find (\<lambda>r. reg_id r = comp_registryId c) (db_registries db) else None),
        comp_examples :=
          (if RelExamples \<in> set joins
           then Some ((if ByExamplesName \<in> set orderBy then sort_by (db_collate db) ex_name
                       else (\<lambda>xs. xs))
                        (filter (\<lambda>e. ex_componentId e = comp_id c) (db_examples db)))
           else None) \<rparr>"

definition matching_registries :: "database \<Rightarrow> reg_atom sql_expr list \<Rightarrow> UIRegistry list" where
  "matching_registries db wheres =
     filter (\<lambda>r. where_holds (reg_atom_holds r) wheres) (db_registries db)"

definition matching_components :: "database \<Rightarrow> comp_atom sql_expr list \<Rightarrow> UIComponent list" where
  "matching_components db wheres =
     filter (\<lambda>c. where_holds (comp_atom_holds c) wheres) (db_components db)"

definition matching_examples :: "database \<Rightarrow> ex_atom sql_expr list \<Rightarrow> UIComponentExample list" where
  "matching_examples db wheres =
     filter (\<lambda>e. where_holds (ex_atom_holds db e) wheres) (db_examples db)"

definition db_registry_getMany :: "database \<Rightarrow> registry_query \<Rightarrow> string + UIRegistry list" where
  "db_registry_getMany db q =
     paginate (rq_take q) (rq_skip q)
       ((if ByName \<in> set (rq_orderBy q) then sort_by (db_collate db) reg_name else (\<lambda>xs. xs))
          (matching_registries db (rq_wheres q)))"

text \<open>
  The fetch of components.  The query joins the examples and orders by the component's
  name and then by the example's name, so it has a row for every example of a
  component, and one row, with no example name, for a component without examples; an
  absent name sorts last.  The query builder pages a joined query in two steps: it
  selects the distinct rows of identifier and order columns in order, \<^verbatim>\<open>LIMIT\<close> and
  \<^verbatim>\<open>OFFSET\<close> applied to these rows, and then loads the components whose identifiers it
  got, whole and in the same order.
\<close>

definition nulls_last :: "(string \<Rightarrow> string \<Rightarrow> bool) \<Rightarrow> string option \<Rightarrow> string option \<Rightarrow> bool" where
  "nulls_last coll a b =
     (case b of None \<Rightarrow> True | Some y \<Rightarrow> (case a of None \<Rightarrow> False | Some x \<Rightarrow> coll x y))"

definition row_le ::
  "(string \<Rightarrow> string \<Rightarrow> bool) \<Rightarrow> order_key list \<Rightarrow> string \<times> string option
     \<Rightarrow> string \<times> string option \<Rightarrow> bool" where
  "row_le coll orderBy k1 k2 =
     (if ByName \<in> set orderBy \<and> \<not> (coll (fst k1) (fst k2) \<and> coll (fst k2) (fst k1))
      then coll (fst k1) (fst k2)
      else if ByExamplesName \<in> set orderBy then nulls_last coll (snd k1) (snd k2)
      else True)"

definition component_keys ::
  "database \<Rightarrow> relation list \<Rightarrow> order_key list \<Rightarrow> UIComponent \<Rightarrow> (string \<times> string option) list" where
  "component_keys db joins orderBy c =
     (if RelExamples \<in> set joins \<and> ByExamplesName \<in> set orderBy then
        (case filter (\<lambda>e. ex_componentId e = comp_id c) (db_examples db) of
           [] \<Rightarrow> [(comp_name c, None)]
         | e # es \<Rightarrow> map (\<lambda>x. (comp_name c, Some (ex_name x)))
                      (sort_by (db_collate db) ex_name (e # es)))
      else [(comp_name c, None)])"

definition first_key ::
  "database \<Rightarrow> relation list \<Rightarrow> order_key list \<Rightarrow> UIComponent \<Rightarrow> string \<times> string option" where
  "first_key db joins orderBy c =
     (case component_keys db joins orderBy c of [] \<Rightarrow> (comp_name c, None) | k # ks \<Rightarrow> k)"

text \<open>
  \<open>page_components\<close> is the answer to a fetch whose conditions the components
  \<open>matching\<close> satisfy.
\<close>

definition page_components ::
  "database \<Rightarrow> relation list \<Rightarrow> order_key list \<Rightarrow> int option \<Rightarrow> int option
     \<Rightarrow> UIComponent list \<Rightarrow> string + UIComponent list" where
  "page_components db joins orderBy tk sk matching =
     (let le = row_le (db_collate db) orderBy;
          rows = sort_by le snd
                   (concat (map (\<lambda>c. map (\<lambda>k. (comp_id c, k)) (component_keys db joins orderBy c))
                              matching));
          entities = sort_by le (first_key db joins orderBy) matching
      in case paginate tk sk (sql_distinct rows) of
           Inl m \<Rightarrow> Inl m
         | Inr page \<Rightarrow>
             Inr (map (load_component db joins orderBy)
                    (filter (\<lambda>c. comp_id c \<in> set (map fst page)) entities)))"

definition db_component_getMany :: "database \<Rightarrow> component_query \<Rightarrow> string + UIComponent list" where
  "db_component_getMany db q =
     page_components db (cq_joins q) (cq_orderBy q) (cq_take q) (cq_skip q)
       (matching_components db (cq_wheres q))"

text \<open>
  The fetch of examples joins one component and one registry to an example, so it has
  one row for an example, and the limit counts examples.
\<close>

definition db_example_getMany :: "database \<Rightarrow> example_query \<Rightarrow> string + UIComponentExample list" where
  "db_example_getMany db q =
     paginate (eq_take q) None
       ((if ByName \<in> set (eq_orderBy q) then sort_by (db_collate db) ex_name else (\<lambda>xs. xs))
          (matching_examples db (eq_wheres q)))"

definition mem_store :: "database \<Rightarrow> store" where
  "mem_store db =
     \<lparr> registry_getMany = db_registry_getMany db,
       registry_getCount = (\<lambda>q. Inr (length (matching_registries db (rq_wheres q)))),
       registry_findByIds = (\<lambda>ids. Inr (filter (\<lambda>r. reg_id r \<in> set ids) (db_registries db))),
       registry_findOneById = (\<lambda>i. Inr (find (\<lambda>r. reg_id r = i) (db_registries db))),
       component_getMany = db_component_getMany db,
       component_getCount = (\<lambda>q. Inr (length (matching_components db (cq_wheres q)))),
       component_findByIds =
         (\<lambda>ids. Inr (map (load_component db [RelRegistry, RelExamples] [])
                        (filter (\<lambda>c. comp_id c \<in> set ids) (db_components db)))),
       example_getMany = db_example_getMany db \<rparr>"

subsection \<open>Writing a component\<close>

text \<open>
  \<^verbatim>\<open>UIComponentRepository.create\<close> keeps the properties that are columns of the entity;
  \<^verbatim>\<open>save\<close> inserts the row with a generated identifier and the creation time.  In the
  entity that is saved, \<^verbatim>\<open>dependencies\<close>, \<^verbatim>\<open>status\<close> and \<^verbatim>\<open>metadata\<close> may be \<^verbatim>\<open>null\<close>
  (\<open>None\<close>); their columns are \<^verbatim>\<open>NOT NULL\<close>.  The insert fails on a \<^verbatim>\<open>null\<close> in such a
  column, when the registry already has a component with the slug (unique index), and
  when the registry does not exist (foreign key).
\<close>

record component_draft =
  draft_registryId :: int
  draft_name :: string
  draft_slug :: string
  draft_type :: string
  draft_description :: "string option"
  draft_dependencies :: "string list option"
  draft_status :: "string option"
  draft_metadata :: "json_object option"

definition next_component_id :: "database \<Rightarrow> int" where
  "next_component_id db = fold max (map comp_id (db_components db)) 0 + 1"

definition not_null_violation :: "string \<Rightarrow> string" where
  "not_null_violation column =
     ''null value in column '' @ [CHR 0x22] @ column @ [CHR 0x22] @ '' of relation ''
     @ [CHR 0x22] @ ''ui_component'' @ [CHR 0x22] @ '' violates not-null constraint''"

definition db_saveComponent :: "database \<Rightarrow> component_draft \<Rightarrow> string + (UIComponent \<times> database)" where
  "db_saveComponent db d =
     (if draft_dependencies d = None then Inl (not_null_violation ''dependencies'')
      else if draft_status d = None then Inl (not_null_violation ''status'')
      else if draft_metadata d = None then Inl (not_null_violation ''metadata'')
      else if list_ex (\<lambda>c. comp_registryId c = draft_registryId d \<and> comp_slug c = draft_slug d)
                      (db_components db) then
        Inl ''duplicate key value violates unique constraint idx_ui_component_registry_slug''
      else if \<not> list_ex (\<lambda>r. reg_id r = draft_registryId d) (db_registries db) then
        Inl ''insert or update on table ui_component violates foreign key constraint''
      else
        (let row = \<lparr> comp_id = next_component_id db,
                     comp_registryId = draft_registryId d,
                     comp_name = draft_name d,
                     comp_slug = draft_slug d,
                     comp_type = draft_type d,
                     comp_description = draft_description d,
                     comp_dependencies = the (draft_dependencies d),
                     comp_status = the (draft_status d),
                     comp_metadata = the (draft_metadata d),
                     comp_createdAt = db_now db,
                     comp_updatedAt = db_now db,
                     comp_registry = None,
                     comp_examples = None \<rparr>
         in Inr (row, db\<lparr> db_components := db_components db @ [row] \<rparr>)))"

definition db_findOneComponent :: "database \<Rightarrow> int \<Rightarrow> UIComponent option" where
  "db_findOneComponent db i =
     map_option (load_component db [RelRegistry, RelExamples] [])
       (find (\<lambda>c. comp_id c = i) (db_components db))"

definition db_findOneRegistryBySlug :: "database \<Rightarrow> string \<Rightarrow> UIRegistry option" where
  "db_findOneRegistryBySlug db s = find (\<lambda>r. reg_slug r = s) (db_registries db)"

section \<open>The transport adapters\<close>

subsection \<open>HTTP\<close>

text \<open>
  A response is its status code and its JSON body.  A query-string parameter that the
  handler reads with \<^verbatim>\<open>parseInt\<close> is the integer it denotes; \<^verbatim>\<open>registrySlug\<close> is one
  string or, when the parameter is repeated, an array.
\<close>

record pagination =
  p_totalCount :: nat
  p_limit :: int
  p_offset :: "int option"
  p_hasMore :: bool

datatype http_body =
    JsonError string
  | JsonComponents "ComponentItem list" pagination
  | JsonComponent "UIComponent option"

record http_response =
  res_status :: nat
  res_body :: http_body

datatype query_value = QString string | QArray "string list"

record components_query =
  q_registryId :: "int option"
  q_registrySlug :: "query_value option"
  q_type :: "string option"
  q_status :: "string option"
  q_query :: "string option"
  q_limit :: "int option"
  q_offset :: "int option"

text \<open>
  \<^verbatim>\<open>app.get('/api/components', ...)\<close>.  First the handler builds the list of registry
  slugs from \<^verbatim>\<open>registrySlug\<close> or, failing that, from the registry with the identifier
  \<^verbatim>\<open>registryId\<close>; then it searches, and answers 500 with the message of whatever was
  thrown.
\<close>

definition resolveRegistrySlugs :: "store \<Rightarrow> components_query \<Rightarrow> string list option action" where
  "resolveRegistrySlugs st q =
     (case q_registrySlug q of
        Some (QArray slugs) \<Rightarrow> ret (Some slugs)
      | Some (QString s) \<Rightarrow>
          if s \<noteq> [] then ret (Some [s])
          else (case q_registryId q of
                  None \<Rightarrow> ret None
                | Some i \<Rightarrow> bind (findOneRegistryById st i) (\<lambda>registry.
                              ret (map_option (\<lambda>r. [reg_slug r]) registry)))
      | None \<Rightarrow>
          (case q_registryId q of
             None \<Rightarrow> ret None
           | Some i \<Rightarrow> bind (findOneRegistryById st i) (\<lambda>registry.
                         ret (map_option (\<lambda>r. [reg_slug r]) registry))))"

definition getComponents :: "store \<Rightarrow> components_query \<Rightarrow> http_response \<times> db_call list" where
  "getComponents st q =
     (let limit = withDefault 20 (q_limit q); offset = withDefault 0 (q_offset q)
      in case bind (resolveRegistrySlugs st q) (\<lambda>registrySlugs.
                searchComponents st registrySlugs (q_query q) (Some limit) (Some offset)) of
           (Inl message, tr) \<Rightarrow> (\<lparr> res_status = 500, res_body = JsonError message \<rparr>, tr)
         | (Inr results, tr) \<Rightarrow>
             (\<lparr> res_status = 200,
                res_body = JsonComponents (items results)
                             \<lparr> p_totalCount = totalCount results,
                               p_limit = SearchResult.limit results,
                               p_offset = SearchResult.offset results,
                               p_hasMore = hasMore results \<rparr> \<rparr>, tr))"

text \<open>
  \<^verbatim>\<open>app.post('/api/components', ...)\<close>, on the database: the handler writes.  The body
  is the parsed JSON object; \<^verbatim>\<open>registryId\<close> is a number.  Where the handler tells a
  property that is missing from one that is \<^verbatim>\<open>null\<close>, in the properties with a
  destructuring default, the two are told apart here; where it only tests the
  property for truth, or passes it on to a nullable column, missing and \<^verbatim>\<open>null\<close> are
  both \<open>None\<close>.
\<close>

datatype 'a json_field = Undefined | Null | Value 'a

text \<open>A destructuring default replaces \<^verbatim>\<open>undefined\<close> and lets \<^verbatim>\<open>null\<close> through.\<close>

definition destructured :: "'a \<Rightarrow> 'a json_field \<Rightarrow> 'a option" where
  "destructured d x = (case x of Undefined \<Rightarrow> Some d | Null \<Rightarrow> None | Value v \<Rightarrow> Some v)"

record component_body =
  b_registryId :: "int option"
  b_registrySlug :: "string option"
  b_name :: "string option"
  b_slug :: "string option"
  b_type :: "string option"
  b_description :: "string option"
  b_dependencies :: "string list json_field"
  b_status :: "string json_field"
  b_introducedVersion :: "string option"
  b_deprecatedVersion :: "string option"
  b_metadata :: "json_object json_field"

definition createComponent :: "database \<Rightarrow> component_body \<Rightarrow> int \<Rightarrow> http_response \<times> database" where
  "createComponent db b finalRegistryId =
     (case db_saveComponent db
             \<lparr> draft_registryId = finalRegistryId,
               draft_name = the (b_name b),
               draft_slug = the (b_slug b),
               draft_type = the (b_type b),
               draft_description = b_description b,
               draft_dependencies = destructured [] (b_dependencies b),
               draft_status = destructured ''stable'' (b_status b),
               draft_metadata = destructured [] (b_metadata b) \<rparr> of
        Inl message \<Rightarrow> (\<lparr> res_status = 500, res_body = JsonError message \<rparr>, db)
      | Inr (savedComponent, db') \<Rightarrow>
          (\<lparr> res_status = 201,
             res_body = JsonComponent (db_findOneComponent db' (comp_id savedComponent)) \<rparr>, db'))"

definition postComponent :: "database \<Rightarrow> component_body \<Rightarrow> http_response \<times> database" where
  "postComponent db b =
     (if \<not> truthy (b_name b) \<or> \<not> truthy (b_slug b) \<or> \<not> truthy (b_type b) then
        (\<lparr> res_status = 400, res_body = JsonError ''name, slug, and type are required'' \<rparr>, db)
      else if (case b_registryId b of None \<Rightarrow> False | Some i \<Rightarrow> i \<noteq> 0) then
        createComponent db b (the (b_registryId b))
      else if truthy (b_registrySlug b) then
        (case db_findOneRegistryBySlug db (the (b_registrySlug b)) of
           None \<Rightarrow>
             (\<lparr> res_status = 404,
                res_body = JsonError (''Registry with slug '' @ [CHR 0x22] @ the (b_registrySlug b)
                                      @ [CHR 0x22] @ '' not found'') \<rparr>, db)
         | Some registry \<Rightarrow> createComponent db b (reg_id registry))
      else
        (\<lparr> res_status = 400,
           res_body = JsonError ''Either registryId or registrySlug is required'' \<rparr>, db))"

subsection \<open>MCP tools\<close>

text \<open>
  The text of a tool's answer is made by \<^verbatim>\<open>formatItemExamples\<close> and
  \<^verbatim>\<open>formatSearchResultsWithPagination\<close>, which are not part of the service; an answer is
  recorded as the formatter's arguments.  The handlers catch nothing: an error of the
  service leaves them as it is.  The first two tools require the list of registries;
  the others take it as optional.
\<close>

datatype tool_text =
    NoExamplesFound string "string list option"
  | MissingComponentInformation
  | ItemExamples "ComponentItem list" string
  | NoComponentsFound "string list option" "string option"
  | SearchResults "ComponentItem SearchResult" "string list option" "string option"
  | PleaseRegister
  | NoRegistriesFound
  | RegistryResults "RegistryItem SearchResult"

definition get_available_registries :: "store \<Rightarrow> string list \<Rightarrow> tool_text action" where
  "get_available_registries st registries =
     bind (searchAllRegistries st (Some registries)) (\<lambda>results.
       if length (items results) = 0 then ret PleaseRegister
       else ret (RegistryResults results))"

definition get_available_ui_components_from_registries ::
  "store \<Rightarrow> string list \<Rightarrow> int option \<Rightarrow> int option \<Rightarrow> tool_text action" where
  "get_available_ui_components_from_registries st registries limit0 offset0 =
     bind (searchRegistries st (Some registries) limit0 offset0) (\<lambda>results.
       if length (items results) = 0 then ret NoRegistriesFound
       else ret (RegistryResults results))"

definition get_item_examples_from_registries ::
  "store \<Rightarrow> string list option \<Rightarrow> string \<Rightarrow> tool_text action" where
  "get_item_examples_from_registries st registries query =
     (let cleanRegistrySlugs = map_option (map cleanName) registries
      in bind (searchExamples st cleanRegistrySlugs (Some query)
                 \<lparr> opt_limit = Some 100, opt_type = None, opt_status = None \<rparr>) (\<lambda>examples.
           if length examples = 0 then ret (NoExamplesFound query registries)
           else
             (let componentIds = newSet (map cex_componentId examples)
              in if length componentIds = 0 then ret MissingComponentInformation
                 else bind (findComponentsByIds st componentIds) (\<lambda>fullComponents.
                        ret (ItemExamples (map (componentItems examples) fullComponents) query)))))"

definition search_items_in_registries ::
  "store \<Rightarrow> string list option \<Rightarrow> string option \<Rightarrow> int option \<Rightarrow> int option \<Rightarrow> tool_text action" where
  "search_items_in_registries st registries query limit0 offset0 =
     bind (searchComponents st registries query limit0 offset0) (\<lambda>results.
       if length (items results) = 0 then ret (NoComponentsFound registries query)
       else ret (SearchResults results registries query))"

section \<open>A sample database\<close>

text \<open>
  The registry \<^verbatim>\<open>shadcn\<close> with two components and two examples, an inactive registry
  \<^verbatim>\<open>legacy\<close>, and one component whose registry row is gone.  Text is ordered byte by
  byte.
\<close>

definition sample_db :: database where
  "sample_db =
     \<lparr> db_registries =
         [\<lparr> reg_id = 1, reg_name = ''shadcn/ui'', reg_slug = ''shadcn'', reg_description = None,
            reg_framework = ''react'', reg_npmPackage = None, reg_installCommand = None,
            reg_docsUrl = None, reg_isActive = True, reg_metadata = [], reg_createdAt = 0,
            reg_updatedAt = 0 \<rparr>,
          \<lparr> reg_id = 2, reg_name = ''Legacy Kit'', reg_slug = ''legacy'', reg_description = None,
            reg_framework = ''vue'', reg_npmPackage = None, reg_installCommand = None,
            reg_docsUrl = None, reg_isActive = False, reg_metadata = [], reg_createdAt = 0,
            reg_updatedAt = 0 \<rparr>],
       db_components =
         [\<lparr> comp_id = 1, comp_registryId = 1, comp_name = ''Button'', comp_slug = ''button'',
            comp_type = ''input-control'', comp_description = Some ''A clickable control'',
            comp_dependencies = [], comp_status = ''stable'', comp_metadata = [],
            comp_createdAt = 0, comp_updatedAt = 0, comp_registry = None, comp_examples = None \<rparr>,
          \<lparr> comp_id = 2, comp_registryId = 1, comp_name = ''Card'', comp_slug = ''card'',
            comp_type = ''container'', comp_description = None,
            comp_dependencies = [], comp_status = ''beta'', comp_metadata = [],
            comp_createdAt = 0, comp_updatedAt = 0, comp_registry = None, comp_examples = None \<rparr>,
          \<lparr> comp_id = 3, comp_registryId = 7, comp_name = ''Orphan'', comp_slug = ''orphan'',
            comp_type = ''biz'', comp_description = None,
            comp_dependencies = [], comp_status = ''alpha'', comp_metadata = [],
            comp_createdAt = 0, comp_updatedAt = 0, comp_registry = None, comp_examples = None \<rparr>],
       db_examples =
         [\<lparr> ex_id = 1, ex_componentId = 1, ex_name = ''Primary Button'', ex_slug = ''primary-button'',
            ex_description = None, ex_language = Some ''tsx'', ex_code = ''<Button/>'',
            ex_metadata = [], ex_createdAt = 0, ex_updatedAt = 0 \<rparr>,
          \<lparr> ex_id = 2, ex_componentId = 1, ex_name = ''Button Variants'', ex_slug = ''button-variants'',
            ex_description = None, ex_language = None, ex_code = ''<Button variant/>'',
            ex_metadata = [], ex_createdAt = 0, ex_updatedAt = 0 \<rparr>],
       db_now = 100,
       db_collate = (\<lambda>a b. a \<le> b) \<rparr>"

text \<open>The item that the service makes of the component \<^verbatim>\<open>Card\<close> of the sample database.\<close>

definition card_item :: ComponentItem where
  "card_item =
     \<lparr> item_id = 2, item_registryId = 1, item_registrySlug = ''shadcn'',
       item_registryName = ''shadcn/ui'', item_slug = ''card'', item_name = ''Card'',
       item_type = ''container'', item_description = None, item_dependencies = [],
       item_status = ''beta'', item_metadata = [], item_exampleCount = 0,
       item_addCommandArgument = ''@shadcn/card'', item_createdAt = 0,
       item_updatedAt = 0, item_examples = [] \<rparr>"

text \<open>
  A store whose component fetch leaves the registry relation unloaded, however the
  query joins: the situation that the follow-up lookup of \<open>searchComponents\<close> repairs.
\<close>

definition unjoined_store :: "database \<Rightarrow> store" where
  "unjoined_store db =
     (mem_store db)\<lparr> component_getMany :=
       (\<lambda>q. db_component_getMany db (q\<lparr> cq_joins := filter (\<lambda>j. j \<noteq> RelRegistry) (cq_joins q) \<rparr>)) \<rparr>"

text \<open>A store that has lost its connection: every operation throws the same message.\<close>

definition offline_store :: "string \<Rightarrow> store" where
  "offline_store message =
     \<lparr> registry_getMany = (\<lambda>q. Inl message),
       registry_getCount = (\<lambda>q. Inl message),
       registry_findByIds = (\<lambda>ids. Inl message),
       registry_findOneById = (\<lambda>i. Inl message),
       component_getMany = (\<lambda>q. Inl message),
       component_getCount = (\<lambda>q. Inl message),
       component_findByIds = (\<lambda>ids. Inl message),
       example_getMany = (\<lambda>q. Inl message) \<rparr>"

text \<open>The request \<^verbatim>\<open>GET /api/components?query=button\<close>.\<close>

definition button_request :: components_query where
  "button_request =
     \<lparr> q_registryId = None, q_registrySlug = None, q_type = None, q_status = None,
       q_query = Some ''button'', q_limit = None, q_offset = None \<rparr>"

text \<open>
  The body of a request to create a component whose type and status are in no
  enumeration.
\<close>

definition widget_body :: component_body where
  "widget_body =
     \<lparr> b_registryId = Some 1, b_registrySlug = None, b_name = Some ''Gauge'',
       b_slug = Some ''gauge'', b_type = Some ''widget'', b_description = None,
       b_dependencies = Undefined, b_status = Value ''experimental'', b_introducedVersion = None,
       b_deprecatedVersion = None, b_metadata = Undefined \<rparr>"

section \<open>The words of the specification\<close>

text \<open>
  ``The query appears case-insensitively as a substring'': \<open>isSubstring q t\<close> says that
  \<open>q\<close> occurs in \<open>t\<close> as a contiguous run.  A query is free of wildcards when none of
  its characters has a meaning of its own in a \<^verbatim>\<open>LIKE\<close> pattern.
\<close>

fun isSubstring :: "'a list \<Rightarrow> 'a list \<Rightarrow> bool" where
  "isSubstring q [] = (q = [])"
| "isSubstring q (c # cs) = (take (length q) (c # cs) = q \<or> isSubstring q cs)"






text \<open>
  How an asynchronous function passes on the failures of the store: when it throws,
  the last call it made is the one that failed, every call before it succeeded, and
  the message thrown is the message of the store after \<open>prefix\<close>; when it returns, no
  call it made has failed.
\<close>

definition propagates :: "store \<Rightarrow> string \<Rightarrow> 'a action \<Rightarrow> bool" where
  "propagates st prefix m =
     (case m of
        (Inl e, tr) \<Rightarrow>
          tr \<noteq> [] \<and> list_all (\<lambda>c. call_failure st c = None) (butlast tr)
          \<and> (case call_failure st (last tr) of None \<Rightarrow> False | Some msg \<Rightarrow> e = prefix @ msg)
      | (Inr x, tr) \<Rightarrow> list_all (\<lambda>c. call_failure st c = None) tr)"

text \<open>The closed set of component types as the specification lists it.\<close>

definition specComponentType :: "string list" where
  "specComponentType =
     [''input-control'', ''container'', ''navigational'', ''informational'', ''business'']"

section \<open>Reasoning about asynchronous code\<close>

lemma bind_Inl [simp]: "bind (Inl e, tr) f = (Inl e, tr)"
  by (simp add: bind_def)

lemma bind_Inr [simp]: "bind (Inr x, tr) f = (fst (f x), tr @ snd (f x))"
  by (simp add: bind_def split: prod.splits)

lemma bind_ret [simp]: "bind (ret x) f = f x"
  by (simp add: ret_def)

lemma rethrow_Inl [simp]: "rethrow p (Inl e, tr) = (Inl (p @ e), tr)"
  by (simp add: rethrow_def)

lemma rethrow_Inr [simp]: "rethrow p (Inr x, tr) = (Inr x, tr)"
  by (simp add: rethrow_def)

lemma fst_ret [simp]: "fst (ret x) = Inr x"
  by (simp add: ret_def)

lemma snd_ret [simp]: "snd (ret x) = []"
  by (simp add: ret_def)

lemma ret_eq [simp]: "ret x = (Inr y, tr) \<longleftrightarrow> x = y \<and> tr = []"
  by (auto simp: ret_def)

lemma ret_neq [simp]: "ret x \<noteq> (Inl e, tr)"
  by (auto simp: ret_def)

lemma rethrow_eq_Inr: "rethrow p m = (Inr x, tr) \<longleftrightarrow> m = (Inr x, tr)"
  by (cases m) (auto simp: rethrow_def split: sum.splits)

lemma rethrow_eq_Inl: "rethrow p m = (Inl e, tr) \<longleftrightarrow> (\<exists>e'. m = (Inl e', tr) \<and> e = p @ e')"
  by (cases m) (auto simp: rethrow_def split: sum.splits)

lemma bind_eq_Inr:
  "bind m f = (Inr y, tr) \<longleftrightarrow>
     (\<exists>x tr1 tr2. m = (Inr x, tr1) \<and> f x = (Inr y, tr2) \<and> tr = tr1 @ tr2)"
  by (cases m) (auto simp: bind_def split: sum.splits prod.splits)

lemma bind_eq_Inl:
  "bind m f = (Inl e, tr) \<longleftrightarrow>
     (m = (Inl e, tr) \<or> (\<exists>x tr1 tr2. m = (Inr x, tr1) \<and> f x = (Inl e, tr2) \<and> tr = tr1 @ tr2))"
  by (cases m) (auto simp: bind_def split: sum.splits prod.splits)

section \<open>The structure of a component search\<close>

lemma loadMissingRegistries_ids:
  assumes "loadMissingRegistries st cs = (Inr cs', tr)"
  shows "map comp_id cs' = map comp_id cs"
  using assms
  by (auto simp: loadMissingRegistries_def Let_def bind_eq_Inr findRegistriesByIds_def
      split: if_splits)

lemma searchComponentsIn_Inr:
  assumes "searchComponentsIn st rids q l k = (Inr res, tr)"
  shows "\<exists>pq cq rows rows' tr1.
           tr = ComponentGetMany pq # tr1 @ [ComponentGetCount cq]
         \<and> cq_wheres cq = cq_wheres pq \<and> cq_take pq = Some l \<and> cq_skip pq = Some k
         \<and> cq_take cq = None \<and> cq_skip cq = None
         \<and> component_getMany st pq = Inr rows
         \<and> loadMissingRegistries st rows = (Inr rows', tr1)
         \<and> component_getCount st cq = Inr (totalCount res)
         \<and> items res = map formatComponent rows'
         \<and> hasMore res = (k + l < int (totalCount res))
         \<and> limit res = l \<and> offset res = Some k"
  using assms
  unfolding searchComponentsIn_def Let_def getManyComponents_def getCountComponents_def
  by (auto simp: bind_eq_Inr)

lemma searchComponents_Inr_cases:
  assumes "searchComponents st registryNames query limit0 offset0 = (Inr res, tr)"
  shows "(\<exists>rids tr0. searchComponentsIn st rids query (withDefault 50 limit0) (withDefault 0 offset0)
                        = (Inr res, tr0)
            \<and> (tr = tr0 \<or> (\<exists>rq. tr = RegistryGetMany rq # tr0)))
       \<or> (nonEmpty registryNames
            \<and> (\<exists>rq. tr = [RegistryGetMany rq] \<and> registry_getMany st rq = Inr [])
            \<and> res = \<lparr> items = [], totalCount = 0, hasMore = False,
                      limit = withDefault 50 limit0, offset = Some (withDefault 0 offset0) \<rparr>)"
  using assms
  unfolding searchComponents_def Let_def getManyRegistries_def
  by (auto simp: rethrow_eq_Inr bind_eq_Inr split: if_splits)

lemma set_insort_by [simp]: "set (insort_by le f x xs) = insert x (set xs)"
  by (induction xs) auto

lemma set_sort_by [simp]: "set (sort_by le f xs) = set xs"
  by (induction xs) (auto simp: sort_by_def)

lemma length_insort_by [simp]: "length (insort_by le f x xs) = Suc (length xs)"
  by (induction xs) auto

lemma length_sort_by [simp]: "length (sort_by le f xs) = length xs"
  by (induction xs) (auto simp: sort_by_def)

text \<open>Under the order of the strings themselves, \<open>sort_by\<close> is the sort of the library.\<close>

lemma insort_by_linorder: "insort_by (\<le>) f x xs = insort_key f x xs"
  by (induction xs) auto

lemma sort_by_linorder: "sort_by (\<le>) f xs = sort_key f xs"
  by (induction xs) (simp_all add: sort_by_def sort_key_def insort_by_linorder)

lemma sort_by_Nil_iff [simp]: "sort_by le f xs = [] \<longleftrightarrow> xs = []"
  using length_sort_by [of le f xs] by (metis length_0_conv)

lemma set_sql_distinct [simp]: "set (sql_distinct xs) = set xs"
  by (simp add: sql_distinct_def)

lemma paginate_no_clause:
  "clause_of tk = None \<Longrightarrow> clause_of sk = None \<Longrightarrow> paginate tk sk rows = Inr rows"
  by (simp add: paginate_def)

lemma paginate_none [simp]: "paginate None None rows = Inr rows"
  by (simp add: paginate_no_clause clause_of_def)

lemma paginate_subset: "paginate tk sk rows = Inr page \<Longrightarrow> set page \<subseteq> set rows"
  by (auto simp: paginate_def split: if_splits option.splits dest: in_set_takeD in_set_dropD)

lemma component_keys_nonempty: "component_keys db js os c \<noteq> []"
  by (auto simp: component_keys_def split: list.splits)

lemma page_components_no_clause:
  assumes "clause_of tk = None" and "clause_of sk = None"
  shows "page_components db js os tk sk matching
     = Inr (map (load_component db js os)
              (sort_by (row_le (db_collate db) os) (first_key db js os) matching))"
proof -
  have "\<And>c. c \<in> set matching \<Longrightarrow>
          comp_id c \<in> fst ` (\<Union>c \<in> set matching. (\<lambda>k. (comp_id c, k)) ` set (component_keys db js os c))"
  proof -
    fix c assume c: "c \<in> set matching"
    obtain k ks where "component_keys db js os c = k # ks"
      using component_keys_nonempty [of db js os c] by (cases "component_keys db js os c") auto
    then have "(comp_id c, k) \<in> (\<lambda>k. (comp_id c, k)) ` set (component_keys db js os c)" by simp
    with c show "comp_id c \<in> fst ` (\<Union>c \<in> set matching. (\<lambda>k. (comp_id c, k)) ` set (component_keys db js os c))"
      by force
  qed
  then show ?thesis
    by (simp add: page_components_def Let_def filter_id_conv paginate_no_clause [OF assms])
qed

lemma page_components_unpaged:
  "page_components db js os None None matching
     = Inr (map (load_component db js os)
              (sort_by (row_le (db_collate db) os) (first_key db js os) matching))"
  by (simp add: page_components_no_clause clause_of_def)



lemma page_components_Nil [simp]:
  "page_components db js os tk sk [] = (case paginate tk sk ([] :: (int \<times> string \<times> string option) list) of Inl m \<Rightarrow> Inl m | Inr p \<Rightarrow> Inr [])"
  by (simp add: page_components_def sort_by_def sql_distinct_def split: sum.splits)

lemma mem_store_count_is_unpaged_fetch:
  assumes "cq_wheres cq = cq_wheres pq"
  shows "\<exists>rows. component_getMany (mem_store db) (pq\<lparr> cq_take := None, cq_skip := None \<rparr>) = Inr rows
               \<and> component_getCount (mem_store db) cq = Inr (length rows)"
  using assms by (simp add: mem_store_def db_component_getMany_def page_components_unpaged)

lemma item_id_formatComponent [simp]: "item_id (formatComponent c) = comp_id c"
  by (simp add: formatComponent_def Let_def)

lemma comp_id_load_component [simp]: "comp_id (load_component db js os c) = comp_id c"
  by (simp add: load_component_def)

section \<open>\<^verbatim>\<open>ILIKE\<close> on a query without wildcards\<close>

lemma isSubstring_iff: "isSubstring q t \<longleftrightarrow> (\<exists>pre suf. t = pre @ q @ suf)"
proof (induction t)
  case Nil
  then show ?case by auto
next
  case (Cons c cs)
  show ?case
  proof
    assume "isSubstring q (c # cs)"
    then consider "take (length q) (c # cs) = q" | "isSubstring q cs" by auto
    then show "\<exists>pre suf. c # cs = pre @ q @ suf"
    proof cases
      case 1
      then have "c # cs = [] @ q @ drop (length q) (c # cs)"
        by (metis append_Nil append_take_drop_id)
      then show ?thesis by blast
    next
      case 2
      with Cons obtain pre suf where "cs = pre @ q @ suf" by blast
      then have "c # cs = (c # pre) @ q @ suf" by simp
      then show ?thesis by blast
    qed
  next
    assume "\<exists>pre suf. c # cs = pre @ q @ suf"
    then obtain pre suf where e: "c # cs = pre @ q @ suf" by blast
    show "isSubstring q (c # cs)"
    proof (cases pre)
      case Nil
      with e have "take (length q) (c # cs) = q" by simp
      then show ?thesis by simp
    next
      case (Cons p ps)
      with e have "cs = ps @ q @ suf" by simp
      with Cons.IH show ?thesis by auto
    qed
  qed
qed








section \<open>The filter of the component search on a database\<close>





section \<open>Completing the registry relation\<close>

lemma registryMap_Some: "registryMap regs i = Some r \<Longrightarrow> r \<in> set regs \<and> reg_id r = i"
  by (auto simp: registryMap_def dest!: map_of_SomeD)

lemma registryMap_None: "registryMap regs i = None \<Longrightarrow> list_all (\<lambda>r. reg_id r \<noteq> i) regs"
  by (force simp: registryMap_def map_of_eq_None_iff list_all_iff image_iff)

lemma loadMissingRegistries_rows:
  assumes "loadMissingRegistries st cs = (Inr cs', tr)"
    and "i < length cs" and "comp_registry (cs ! i) = None" and "comp_registryId (cs ! i) \<noteq> 0"
  shows "\<exists>ids regs. tr = [RegistryFindByIds ids] \<and> comp_registryId (cs ! i) \<in> set ids
           \<and> registry_findByIds st ids = Inr regs
           \<and> cs' ! i = (cs ! i)\<lparr> comp_registry := registryMap regs (comp_registryId (cs ! i)) \<rparr>"
proof -
  let ?P = "\<lambda>c. comp_registry c = None \<and> comp_registryId c \<noteq> 0"
  have m: "cs ! i \<in> set (filter ?P cs)"
    using assms(2,3,4) by simp
  then have ne: "length (filter ?P cs) > 0"
    by (metis length_pos_if_in_set)
  have "comp_registryId (cs ! i) \<in> set (newSet (map comp_registryId (filter ?P cs)))"
    using m by (simp add: newSet_def del: set_filter)
  with assms(1,2,3,4) ne show ?thesis
    by (auto simp: loadMissingRegistries_def Let_def bind_eq_Inr findRegistriesByIds_def
        simp del: bind_Inr set_filter)
qed

lemma loadMissingRegistries_trace:
  assumes "loadMissingRegistries st cs = (r, tr)"
  shows "tr = [] \<or> (\<exists>ids. tr = [RegistryFindByIds ids])"
  using assms
  by (auto simp: loadMissingRegistries_def Let_def findRegistriesByIds_def bind_def ret_def
      split: if_splits sum.splits)

lemma loadMissingRegistries_length:
  assumes "loadMissingRegistries st cs = (Inr cs', tr)"
  shows "length cs' = length cs"
  using loadMissingRegistries_ids [OF assms] by (metis length_map)

section \<open>Failures of the store\<close>

lemma propagates_ret [simp, intro!]: "propagates st [] (ret x)"
  by (simp add: propagates_def ret_def)

lemma propagates_call:
  "call_failure st c = failure_of r \<Longrightarrow> propagates st [] (r, [c])"
  by (cases r) (auto simp: propagates_def failure_of_def)

lemma propagates_prims [simp, intro!]:
  "propagates st [] (getManyRegistries st rq)"
  "propagates st [] (getCountRegistries st rq)"
  "propagates st [] (findRegistriesByIds st ids)"
  "propagates st [] (findOneRegistryById st i)"
  "propagates st [] (getManyComponents st cq)"
  "propagates st [] (getCountComponents st cq)"
  "propagates st [] (findComponentsByIds st ids)"
  "propagates st [] (getManyExamples st eq)"
  by (simp_all add: getManyRegistries_def getCountRegistries_def findRegistriesByIds_def
      findOneRegistryById_def getManyComponents_def getCountComponents_def
      findComponentsByIds_def getManyExamples_def propagates_call)

lemma propagates_bind [intro!]:
  assumes "propagates st [] m" and "\<And>x. propagates st [] (f x)"
  shows "propagates st [] (bind m f)"
proof (cases m)
  case (Pair r tr)
  show ?thesis
  proof (cases r)
    case (Inl e)
    with Pair assms(1) show ?thesis by (simp add: propagates_def)
  next
    case (Inr x)
    obtain r2 tr2 where f: "f x = (r2, tr2)" by (cases "f x")
    from assms(2) [of x] f have p2: "propagates st [] (r2, tr2)" by simp
    from Pair Inr assms(1) have ok1: "list_all (\<lambda>c. call_failure st c = None) tr"
      by (simp add: propagates_def)
    show ?thesis
    proof (cases r2)
      case (Inl e)
      with p2 have "tr2 \<noteq> []" by (simp add: propagates_def)
      with p2 Inl ok1 Pair Inr f show ?thesis
        by (simp add: propagates_def butlast_append)
    next
      case (Inr y)
      with p2 ok1 Pair \<open>r = Inr x\<close> f show ?thesis
        by (simp add: propagates_def)
    qed
  qed
qed

lemma propagates_rethrow [intro!]:
  "propagates st [] m \<Longrightarrow> propagates st p (rethrow p m)"
  by (cases m) (auto simp: propagates_def rethrow_def split: sum.splits option.splits)

lemma propagates_if [intro!]:
  "(b \<Longrightarrow> propagates st p m) \<Longrightarrow> (\<not> b \<Longrightarrow> propagates st p n) \<Longrightarrow> propagates st p (if b then m else n)"
  by simp

lemma propagates_loadMissingRegistries [simp, intro!]:
  "propagates st [] (loadMissingRegistries st cs)"
  unfolding loadMissingRegistries_def Let_def by (intro propagates_if propagates_bind propagates_ret propagates_prims)

lemma propagates_searchComponentsIn [simp, intro!]:
  "propagates st [] (searchComponentsIn st rids q l k)"
  unfolding searchComponentsIn_def Let_def
  by (intro propagates_if propagates_bind propagates_ret propagates_prims propagates_loadMissingRegistries)

lemma propagates_searchComponents:
  "propagates st ''Component search failed: '' (searchComponents st rn q l0 o0)"
  unfolding searchComponents_def Let_def
  by (intro propagates_rethrow propagates_if propagates_bind propagates_ret propagates_prims propagates_searchComponentsIn)

lemma propagates_searchRegistries:
  "propagates st ''Registry search failed: '' (searchRegistries st rn l0 o0)"
  unfolding searchRegistries_def Let_def
  by (intro propagates_rethrow propagates_if propagates_bind propagates_ret propagates_prims)

lemma propagates_searchAllRegistries:
  "propagates st ''Registry search failed: '' (searchAllRegistries st rn)"
  unfolding searchAllRegistries_def Let_def
  by (intro propagates_rethrow propagates_if propagates_bind propagates_ret propagates_prims)

lemma propagates_searchExamplesIn [simp, intro!]:
  "propagates st [] (searchExamplesIn st rids q l)"
  unfolding searchExamplesIn_def Let_def
  by (intro propagates_if propagates_bind propagates_ret propagates_prims)

lemma propagates_searchExamples:
  "propagates st ''Example search failed: '' (searchExamples st rn q opts)"
  unfolding searchExamples_def Let_def
  by (intro propagates_rethrow propagates_if propagates_bind propagates_ret propagates_prims propagates_searchExamplesIn)

section \<open>The queries a search issues\<close>

lemma snd_bind_eq:
  "snd (bind m f) = (case m of (Inl e, tr) \<Rightarrow> tr | (Inr x, tr) \<Rightarrow> tr @ snd (f x))"
  by (cases m) (auto simp: bind_def split: sum.splits prod.splits)

lemma snd_bind:
  "set (snd (bind m f)) \<subseteq> set (snd m) \<union> (\<Union>x. set (snd (f x)))"
  by (cases m) (auto simp: snd_bind_eq split: sum.splits)

lemma snd_rethrow [simp]: "snd (rethrow p m) = snd m"
  by (cases m) (auto simp: rethrow_def split: sum.splits)

lemma loadMissingRegistries_no_fetch:
  "loadMissingRegistries st cs = (r, tr) \<Longrightarrow> ComponentGetMany pq \<in> set tr \<Longrightarrow> False"
  using loadMissingRegistries_trace [of st cs r tr] by auto

lemma searchComponentsIn_paged_query:
  assumes "searchComponentsIn st rids q l k = (r, tr)" and "ComponentGetMany pq \<in> set tr"
  shows "cq_take pq = Some l \<and> cq_skip pq = Some k"
  using assms
  unfolding searchComponentsIn_def Let_def getManyComponents_def getCountComponents_def
  by (auto simp: bind_def ret_def split: sum.splits prod.splits
      dest: loadMissingRegistries_no_fetch)

lemma searchComponents_paged_query:
  assumes "ComponentGetMany pq \<in> set (snd (searchComponents st rn q l0 o0))"
  shows "cq_take pq = Some (withDefault 50 l0) \<and> cq_skip pq = Some (withDefault 0 o0)"
  using assms
  unfolding searchComponents_def Let_def getManyRegistries_def
  by (auto simp: bind_def ret_def split: sum.splits prod.splits if_splits
      dest: searchComponentsIn_paged_query
        searchComponentsIn_paged_query [OF surjective_pairing])

lemma resolveRegistrySlugs_no_fetch:
  "ComponentGetMany pq \<notin> set (snd (resolveRegistrySlugs st req))"
  unfolding resolveRegistrySlugs_def findOneRegistryById_def
  by (auto simp: bind_def ret_def split: sum.splits prod.splits option.splits query_value.splits)

lemma getComponents_paged_query:
  assumes "ComponentGetMany pq \<in> set (snd (getComponents st req))"
  shows "cq_take pq = Some (withDefault 20 (q_limit req)) \<and> cq_skip pq = Some (withDefault 0 (q_offset req))"
proof -
  have "snd (getComponents st req)
          = snd (bind (resolveRegistrySlugs st req) (\<lambda>registrySlugs.
                   searchComponents st registrySlugs (q_query req)
                     (Some (withDefault 20 (q_limit req))) (Some (withDefault 0 (q_offset req)))))"
    by (simp add: getComponents_def Let_def split: prod.splits sum.splits)
  with assms snd_bind [of "resolveRegistrySlugs st req"] resolveRegistrySlugs_no_fetch [of pq st req]
  obtain slugs where "ComponentGetMany pq \<in> set (snd (searchComponents st slugs (q_query req)
                     (Some (withDefault 20 (q_limit req))) (Some (withDefault 0 (q_offset req)))))"
    by fastforce
  from searchComponents_paged_query [OF this] show ?thesis
    by (simp add: withDefault_def)
qed

lemma searchExamplesIn_query:
  assumes "searchExamplesIn st rids q l = (r, tr)" and "ExampleGetMany xq \<in> set tr"
  shows "eq_take xq = Some l"
  using assms
  unfolding searchExamplesIn_def Let_def getManyExamples_def
  by (auto simp: bind_def ret_def split: sum.splits prod.splits)

lemma searchExamples_query:
  assumes "ExampleGetMany xq \<in> set (snd (searchExamples st rn q opts))"
  shows "eq_take xq = Some (withDefault 20 (opt_limit opts))"
  using assms
  unfolding searchExamples_def Let_def getManyRegistries_def
  by (auto simp: bind_def ret_def split: sum.splits prod.splits if_splits
      dest: searchExamplesIn_query searchExamplesIn_query [OF surjective_pairing])

lemma tool_examples_query:
  assumes "ExampleGetMany xq \<in> set (snd (get_item_examples_from_registries st rn q))"
  shows "eq_take xq = Some 100"
proof -
  from assms snd_bind [of "searchExamples st (map_option (map cleanName) rn) (Some q)
                 \<lparr> opt_limit = Some 100, opt_type = None, opt_status = None \<rparr>"]
  have "ExampleGetMany xq \<in> set (snd (searchExamples st (map_option (map cleanName) rn) (Some q)
                 \<lparr> opt_limit = Some 100, opt_type = None, opt_status = None \<rparr>))"
    unfolding get_item_examples_from_registries_def Let_def findComponentsByIds_def
    by (fastforce simp: bind_def ret_def split: sum.splits prod.splits if_splits)
  from searchExamples_query [OF this] show ?thesis
    by (simp add: withDefault_def)
qed

section \<open>Creating a component\<close>

lemma fold_max_ge: "(a::int) \<le> fold max xs a"
  by (induction xs arbitrary: a) (auto intro: order_trans [OF max.cobounded2])

lemma fold_max_upper: "x \<in> set xs \<Longrightarrow> (x::int) \<le> fold max xs a"
proof (induction xs arbitrary: a)
  case Nil
  then show ?case by simp
next
  case (Cons y ys)
  show ?case
  proof (cases "x = y")
    case True
    have "x \<le> max y a" using True by simp
    also have "\<dots> \<le> fold max ys (max y a)" by (rule fold_max_ge)
    finally show ?thesis by simp
  next
    case False
    with Cons show ?thesis by simp
  qed
qed

lemma next_component_id_fresh:
  "find (\<lambda>c. comp_id c = next_component_id db) (db_components db) = None"
proof -
  have "\<And>c. c \<in> set (db_components db) \<Longrightarrow> comp_id c < next_component_id db"
    using fold_max_upper [of _ "map comp_id (db_components db)" 0]
    by (fastforce simp: next_component_id_def)
  then show ?thesis
    by (force simp: find_None_iff)
qed

lemma find_append_fresh:
  "find P xs = None \<Longrightarrow> P y \<Longrightarrow> find P (xs @ [y]) = Some y"
  by (induction xs) (auto split: if_splits)

lemma comp_type_load [simp]: "comp_type (load_component db js os c) = comp_type c"
  by (simp add: load_component_def)

lemma comp_status_load [simp]: "comp_status (load_component db js os c) = comp_status c"
  by (simp add: load_component_def)

lemma createComponent_created:
  assumes "list_ex (\<lambda>r. reg_id r = rid) (db_registries db)"
    and "\<not> list_ex (\<lambda>c. comp_registryId c = rid \<and> comp_slug c = the (b_slug b)) (db_components db)"
    and "b_dependencies b \<noteq> Null" and "b_status b \<noteq> Null" and "b_metadata b \<noteq> Null"
  shows "\<exists>c row. createComponent db b rid
             = (\<lparr> res_status = 201, res_body = JsonComponent (Some c) \<rparr>,
                db\<lparr> db_components := db_components db @ [row] \<rparr>)
           \<and> comp_type c = the (b_type b)
           \<and> comp_status c = (case b_status b of Value s \<Rightarrow> s | _ \<Rightarrow> ''stable'')
           \<and> comp_type row = the (b_type b)
           \<and> comp_status row = (case b_status b of Value s \<Rightarrow> s | _ \<Rightarrow> ''stable'')"
proof -
  let ?status = "case b_status b of Value s \<Rightarrow> s | _ \<Rightarrow> ''stable''"
  let ?row = "\<lparr> comp_id = next_component_id db, comp_registryId = rid,
                 comp_name = the (b_name b), comp_slug = the (b_slug b),
                 comp_type = the (b_type b), comp_description = b_description b,
                 comp_dependencies = the (destructured [] (b_dependencies b)),
                 comp_status = ?status,
                 comp_metadata = the (destructured [] (b_metadata b)),
                 comp_createdAt = db_now db, comp_updatedAt = db_now db,
                 comp_registry = None, comp_examples = None \<rparr>"
  let ?db = "db\<lparr> db_components := db_components db @ [?row] \<rparr>"
  have n: "destructured [] (b_dependencies b) \<noteq> None"
    "destructured ''stable'' (b_status b) \<noteq> None"
    "destructured [] (b_metadata b) \<noteq> None"
    using assms(3-5) by (auto simp: destructured_def split: json_field.splits)
  have t: "the (destructured ''stable'' (b_status b)) = ?status"
    using assms(4) by (simp add: destructured_def split: json_field.splits)
  have "createComponent db b rid
          = (\<lparr> res_status = 201,
               res_body = JsonComponent
                 (Some (load_component ?db [RelRegistry, RelExamples] [] ?row)) \<rparr>, ?db)"
    using assms(1,2) n next_component_id_fresh [of db]
    by (simp add: createComponent_def db_saveComponent_def Let_def db_findOneComponent_def
        find_append_fresh t)
  moreover have "comp_type (load_component ?db [RelRegistry, RelExamples] [] ?row) = the (b_type b)"
    "comp_status (load_component ?db [RelRegistry, RelExamples] [] ?row) = ?status"
    "comp_type ?row = the (b_type b)" "comp_status ?row = ?status"
    by simp_all
  ultimately show ?thesis by blast
qed

lemma createComponent_null:
  assumes "b_dependencies b = Null \<or> b_status b = Null \<or> b_metadata b = Null"
  shows "res_status (fst (createComponent db b rid)) = 500 \<and> snd (createComponent db b rid) = db"
  using assms
  by (auto simp: createComponent_def db_saveComponent_def destructured_def)

lemma createComponent_status:
  "res_status (fst (createComponent db b i)) = 201 \<or> res_status (fst (createComponent db b i)) = 500"
  by (simp add: createComponent_def split: sum.splits prod.splits)

lemma found_by_slug_exists:
  "db_findOneRegistryBySlug db s = Some r \<Longrightarrow> list_ex (\<lambda>x. reg_id x = reg_id r) (db_registries db)"
  by (auto simp: db_findOneRegistryBySlug_def list_ex_iff find_Some_iff)
section \<open>The component search returns\<close>

text \<open>
  On a database the component search fails only when the database refuses the page: for
  a limit and an offset that are not negative and are 64-bit integers it returns a
  result.
\<close>

lemma returns_bind:
  assumes "\<exists>x. fst m = Inr x" and "\<And>x. \<exists>y. fst (f x) = Inr y"
  shows "\<exists>y. fst (bind m f) = Inr y"
proof -
  from assms(1) obtain x tr where "m = (Inr x, tr)" by (cases m) auto
  with assms(2) [of x] show ?thesis by simp
qed

lemma returns_rethrow:
  assumes "\<exists>x. fst m = Inr x"
  shows "\<exists>y. fst (rethrow p m) = Inr y"
  using assms by (cases m) (auto simp: rethrow_def split: sum.splits)

lemma paginate_returns:
  assumes "0 \<le> l" "0 \<le> k" "bigint_range l" "bigint_range k"
  shows "\<exists>page. paginate (Some l) (Some k) rows = Inr page"
  using assms by (simp add: paginate_def clause_of_def)

lemma loadMissingRegistries_mem_returns:
  "\<exists>y. fst (loadMissingRegistries (mem_store db) rows) = Inr y"
  by (simp add: loadMissingRegistries_def Let_def findRegistriesByIds_def mem_store_def)

lemma page_components_returns:
  assumes "0 \<le> l" "0 \<le> k" "bigint_range l" "bigint_range k"
  shows "\<exists>rows. page_components db js os (Some l) (Some k) matching = Inr rows"
proof -
  from paginate_returns [OF assms] obtain page where
    "paginate (Some l) (Some k)
       (sql_distinct (sort_by (row_le (db_collate db) os) snd
          (concat (map (\<lambda>c. map (\<lambda>k. (comp_id c, k)) (component_keys db js os c)) matching))))
     = Inr page"
    by blast
  then show ?thesis
    by (simp add: page_components_def Let_def)
qed

lemma searchComponentsIn_mem_returns:
  assumes "0 \<le> l" "0 \<le> k" "bigint_range l" "bigint_range k"
  shows "\<exists>res. fst (searchComponentsIn (mem_store db) rids q l k) = Inr res"
proof -
  have g: "\<And>W. \<exists>rows. fst (getManyComponents (mem_store db)
            \<lparr> cq_joins = [RelRegistry, RelExamples], cq_wheres = W,
              cq_orderBy = [ByName, ByExamplesName], cq_take = Some l, cq_skip = Some k \<rparr>) = Inr rows"
    using page_components_returns [OF assms]
    by (simp add: getManyComponents_def mem_store_def db_component_getMany_def)
  have c: "\<And>cq. \<exists>n. fst (getCountComponents (mem_store db) cq) = Inr n"
    by (simp add: getCountComponents_def mem_store_def)
  show ?thesis
    unfolding searchComponentsIn_def Let_def
    by (intro returns_bind g loadMissingRegistries_mem_returns c) simp
qed

lemma searchComponents_mem_returns:
  assumes "0 \<le> withDefault 50 limit0" "0 \<le> withDefault 0 offset0"
    "bigint_range (withDefault 50 limit0)" "bigint_range (withDefault 0 offset0)"
  shows "\<exists>res. fst (searchComponents (mem_store db) registryNames query limit0 offset0) = Inr res"
proof -
  have g: "\<And>ws. \<exists>rs. fst (getManyRegistries (mem_store db)
             \<lparr> rq_wheres = ws, rq_orderBy = [], rq_take = None, rq_skip = None \<rparr>) = Inr rs"
    by (simp add: getManyRegistries_def mem_store_def db_registry_getMany_def)
  note s = searchComponentsIn_mem_returns [OF assms]
  show ?thesis
  proof (cases "nonEmpty registryNames")
    case True
    then have n: "nonEmpty (Some (map cleanName (the registryNames)))"
      by (cases registryNames) (auto simp: nonEmpty_def)
    have "\<exists>y. fst (bind (getManyRegistries (mem_store db)
                \<lparr> rq_wheres = [OrE (Atom (RegNameIn (map cleanName (the registryNames))))
                                   (Atom (RegSlugIn (map cleanName (the registryNames))))],
                  rq_orderBy = [], rq_take = None, rq_skip = None \<rparr>)
             (\<lambda>matchingRegistries.
                 if length (map reg_id matchingRegistries) = 0
                 then ret \<lparr> items = [], totalCount = 0, hasMore = False,
                       limit = withDefault 50 limit0, offset = Some (withDefault 0 offset0) \<rparr>
                 else searchComponentsIn (mem_store db) (Some (map reg_id matchingRegistries)) query
                        (withDefault 50 limit0) (withDefault 0 offset0))) = Inr y"
      by (rule returns_bind [OF g]) (simp add: s)
    from returns_rethrow [OF this] show ?thesis
      using True n by (simp add: searchComponents_def Let_def)
  next
    case False
    from returns_rethrow [OF s] show ?thesis
      using False by (simp add: searchComponents_def Let_def)
  qed
qed

section \<open>Normalising registry identifiers\<close>

lemma cleanName_no_at: "xs = [] \<or> hd xs \<noteq> CHR ''@'' \<Longrightarrow> cleanName xs = xs"
  by (cases xs) auto

text \<open>
  C4 as stated fails: an identifier that starts with two \<^verbatim>\<open>@\<close> loses one of them at
  each application.
\<close>

theorem cleanName_not_idempotent: "cleanName (cleanName ''@@antd'') \<noteq> cleanName ''@@antd''"
  by simp

text \<open>
  C4 (amended): stripping removes exactly one leading \<^verbatim>\<open>@\<close>, and it is idempotent on
  every identifier that does not start with two of them, that is, whenever the
  stripped identifier no longer starts with \<^verbatim>\<open>@\<close>.
\<close>

theorem cleanName_idempotent_single_at:
  "take 2 x \<noteq> ''@@'' \<Longrightarrow> cleanName (cleanName x) = cleanName x"
proof (cases x)
  case Nil
  then show ?thesis by simp
next
  case (Cons c cs)
  assume h: "take 2 x \<noteq> ''@@''"
  show ?thesis
  proof (cases "c = CHR ''@''")
    case True
    with h Cons have "cs = [] \<or> hd cs \<noteq> CHR ''@''"
      by (cases cs) auto
    then have "cleanName cs = cs" by (rule cleanName_no_at)
    with True Cons show ?thesis by simp
  next
    case False
    with Cons show ?thesis by simp
  qed
qed

theorem cleanName_idempotent_single_at_witness:
  "take 2 ''@shadcn'' \<noteq> ''@@'' \<and> cleanName (cleanName ''@shadcn'') = cleanName ''@shadcn''
   \<and> cleanName ''@shadcn'' = ''shadcn''"
  using cleanName_idempotent_single_at [of "''@shadcn''"] by simp

section \<open>The add-command argument\<close>

text \<open>
  C7: the item that \<open>formatComponent\<close> makes of a component, and the item that the
  examples tool builds for a component, carry the component's slug and the slug of the
  component's registry (empty when the registry is not loaded), and their
  \<open>addCommandArgument\<close> is an \<^verbatim>\<open>@\<close>, the slug of the component's registry, a \<^verbatim>\<open>/\<close> and
  the component's slug when the registry is loaded and its slug is not empty, and the
  component's slug alone otherwise.  So in every item \<open>addCommandArgument\<close> is made of
  the item's own \<open>registrySlug\<close> and \<open>slug\<close> in the same way.
\<close>

theorem addCommandArgument_format:
  "item_addCommandArgument (formatComponent c) =
     (case comp_registry c of
        None \<Rightarrow> comp_slug c
      | Some r \<Rightarrow> if reg_slug r \<noteq> [] then ''@'' @ reg_slug r @ ''/'' @ comp_slug c
                  else comp_slug c)
   \<and> item_addCommandArgument (componentItems es c) =
     (case comp_registry c of
        None \<Rightarrow> comp_slug c
      | Some r \<Rightarrow> if reg_slug r \<noteq> [] then ''@'' @ reg_slug r @ ''/'' @ comp_slug c
                  else comp_slug c)
   \<and> item_slug (formatComponent c) = comp_slug c
   \<and> item_slug (componentItems es c) = comp_slug c
   \<and> item_registrySlug (formatComponent c)
       = (case comp_registry c of None \<Rightarrow> [] | Some r \<Rightarrow> reg_slug r)
   \<and> item_registrySlug (componentItems es c)
       = (case comp_registry c of None \<Rightarrow> [] | Some r \<Rightarrow> reg_slug r)
   \<and> item_addCommandArgument (formatComponent c) =
     (if item_registrySlug (formatComponent c) \<noteq> []
      then ''@'' @ item_registrySlug (formatComponent c) @ ''/'' @ item_slug (formatComponent c)
      else item_slug (formatComponent c))
   \<and> item_addCommandArgument (componentItems es c) =
     (if item_registrySlug (componentItems es c) \<noteq> []
      then ''@'' @ item_registrySlug (componentItems es c) @ ''/'' @ item_slug (componentItems es c)
      else item_slug (componentItems es c))"
  by (simp add: formatComponent_def componentItems_def Let_def split: option.splits)
section \<open>Pagination of the component search\<close>

text \<open>
  C1 as stated fails: the search that stops early, because no registry matches the
  identifiers, answers \<open>hasMore = False\<close> whatever the limit and the offset are.  With the
  limit \<open>-1\<close> the sum of offset and limit is below the total count \<open>0\<close>.
\<close>

theorem searchComponents_hasMore_negative_limit:
  "fst (searchComponents (mem_store sample_db) (Some [''@antd'']) None (Some (- 1)) (Some 0)) =
     Inr \<lparr> items = [], totalCount = 0, hasMore = False, limit = - 1, offset = Some 0 \<rparr>
   \<and> hasMore (projr (fst (searchComponents (mem_store sample_db) (Some [''@antd'']) None
                             (Some (- 1)) (Some 0))))
       \<noteq> ((0::int) + (- 1)
            < int (totalCount (projr (fst (searchComponents (mem_store sample_db)
                                             (Some [''@antd'']) None (Some (- 1)) (Some 0))))))"
  by code_simp

text \<open>
  C1 (amended): a component search that returns a result echoes the limit and the
  offset (50 and 0 when omitted) and is of one of two kinds.  Either it reached the
  count query: then the last call to the store is a count query with exactly the
  conditions of the paged fetch and no paging, \<open>totalCount\<close> is the store's answer to
  it, \<open>hasMore\<close> is \<open>offset + limit < totalCount\<close>, and on a relational database the
  count is the number of rows of the same fetch without paging.  Or registry
  identifiers were given and none matched: then the one call to the store is the
  registry lookup, \<open>totalCount\<close> is 0 and \<open>hasMore\<close> is false, which agrees with
  \<open>offset + limit < totalCount\<close> exactly when \<open>offset + limit\<close> is not negative.
\<close>

theorem searchComponents_hasMore:
  assumes "searchComponents st registryNames query limit0 offset0 = (Inr res, tr)"
  shows "limit res = withDefault 50 limit0 \<and> offset res = Some (withDefault 0 offset0)
       \<and> ((\<exists>pq cq. ComponentGetMany pq \<in> set tr \<and> last tr = ComponentGetCount cq
               \<and> cq_wheres cq = cq_wheres pq
               \<and> cq_take pq = Some (withDefault 50 limit0)
               \<and> cq_skip pq = Some (withDefault 0 offset0)
               \<and> cq_take cq = None \<and> cq_skip cq = None
               \<and> component_getCount st cq = Inr (totalCount res)
               \<and> hasMore res = (withDefault 0 offset0 + withDefault 50 limit0 < int (totalCount res))
               \<and> (\<forall>db. st = mem_store db \<longrightarrow>
                     (\<exists>rows. component_getMany st (pq\<lparr> cq_take := None, cq_skip := None \<rparr>) = Inr rows
                        \<and> length rows = totalCount res)))
          \<or> (nonEmpty registryNames
               \<and> (\<exists>rq. tr = [RegistryGetMany rq] \<and> registry_getMany st rq = Inr [])
               \<and> items res = [] \<and> totalCount res = 0 \<and> \<not> hasMore res
               \<and> ((hasMore res = (withDefault 0 offset0 + withDefault 50 limit0 < int (totalCount res)))
                    = (0 \<le> withDefault 0 offset0 + withDefault 50 limit0))))"
proof -
  from searchComponents_Inr_cases [OF assms]
  show ?thesis
  proof
    assume "\<exists>rids tr0. searchComponentsIn st rids query (withDefault 50 limit0) (withDefault 0 offset0)
                          = (Inr res, tr0)
            \<and> (tr = tr0 \<or> (\<exists>rq. tr = RegistryGetMany rq # tr0))"
    then obtain rids tr0 where
      a: "searchComponentsIn st rids query (withDefault 50 limit0) (withDefault 0 offset0)
            = (Inr res, tr0)"
      and b: "tr = tr0 \<or> (\<exists>rq. tr = RegistryGetMany rq # tr0)"
      by blast
    from searchComponentsIn_Inr [OF a] obtain pq cq tr1 where
      c: "tr0 = ComponentGetMany pq # tr1 @ [ComponentGetCount cq]"
         "cq_wheres cq = cq_wheres pq" "cq_take pq = Some (withDefault 50 limit0)"
         "cq_skip pq = Some (withDefault 0 offset0)" "cq_take cq = None" "cq_skip cq = None"
         "component_getCount st cq = Inr (totalCount res)"
         "hasMore res = (withDefault 0 offset0 + withDefault 50 limit0 < int (totalCount res))"
         "limit res = withDefault 50 limit0" "offset res = Some (withDefault 0 offset0)"
      by blast
    have d: "ComponentGetMany pq \<in> set tr" "last tr = ComponentGetCount cq"
      using b c(1) by auto
    have e: "\<forall>db. st = mem_store db \<longrightarrow>
               (\<exists>rows. component_getMany st (pq\<lparr> cq_take := None, cq_skip := None \<rparr>) = Inr rows
                  \<and> length rows = totalCount res)"
      using c(7) mem_store_count_is_unpaged_fetch [OF c(2)] by fastforce
    show ?thesis using c d e by blast
  next
    assume "nonEmpty registryNames
            \<and> (\<exists>rq. tr = [RegistryGetMany rq] \<and> registry_getMany st rq = Inr [])
            \<and> res = \<lparr> items = [], totalCount = 0, hasMore = False,
                      limit = withDefault 50 limit0, offset = Some (withDefault 0 offset0) \<rparr>"
    then show ?thesis by auto
  qed
qed

theorem searchComponents_hasMore_witness:
  "searchComponents (mem_store sample_db) None None (Some 1) (Some 2) =
     (Inr \<lparr> items = [card_item],
            totalCount = 3, hasMore = False, limit = 1, offset = Some 2 \<rparr>,
      [ComponentGetMany
         \<lparr> cq_joins = [RelRegistry, RelExamples], cq_wheres = [],
           cq_orderBy = [ByName, ByExamplesName], cq_take = Some 1, cq_skip = Some 2 \<rparr>,
       ComponentGetCount
         \<lparr> cq_joins = [], cq_wheres = [], cq_orderBy = [], cq_take = None, cq_skip = None \<rparr>])
   \<and> component_getCount (mem_store sample_db)
         \<lparr> cq_joins = [], cq_wheres = [], cq_orderBy = [], cq_take = None, cq_skip = None \<rparr> = Inr 3
   \<and> False = ((2::int) + 1 < int 3)"
proof -
  have h: "searchComponents (mem_store sample_db) None None (Some 1) (Some 2) =
     (Inr \<lparr> items = [card_item],
            totalCount = 3, hasMore = False, limit = 1, offset = Some 2 \<rparr>,
      [ComponentGetMany
         \<lparr> cq_joins = [RelRegistry, RelExamples], cq_wheres = [],
           cq_orderBy = [ByName, ByExamplesName], cq_take = Some 1, cq_skip = Some 2 \<rparr>,
       ComponentGetCount
         \<lparr> cq_joins = [], cq_wheres = [], cq_orderBy = [], cq_take = None, cq_skip = None \<rparr>])"
    by code_simp
  have c: "component_getCount (mem_store sample_db)
         \<lparr> cq_joins = [], cq_wheres = [], cq_orderBy = [], cq_take = None, cq_skip = None \<rparr> = Inr 3"
    by code_simp
  show ?thesis
    using searchComponents_hasMore [OF h] h c by simp
qed

section \<open>Registry identifiers that match no registry\<close>

text \<open>
  C2: when a non-empty list of registry identifiers is given and, once a leading
  \<^verbatim>\<open>@\<close> is stripped, none of them is the name or the slug of a registry of the
  database, the search returns no items, total count 0 and \<open>hasMore = False\<close>, with the
  caller's limit and offset (50 and 0 when omitted).  No error is raised, and the only
  call to the store is the registry lookup: no count query is issued.
\<close>

theorem searchComponents_unresolved_registries:
  assumes "registryNames \<noteq> []"
    and "set (map reg_name (db_registries db)) \<inter> set (map cleanName registryNames) = {}"
    and "set (map reg_slug (db_registries db)) \<inter> set (map cleanName registryNames) = {}"
  shows "searchComponents (mem_store db) (Some registryNames) query limit0 offset0 =
           (Inr \<lparr> items = [], totalCount = 0, hasMore = False,
                  limit = withDefault 50 limit0, offset = Some (withDefault 0 offset0) \<rparr>,
            [RegistryGetMany
               \<lparr> rq_wheres = [OrE (Atom (RegNameIn (map cleanName registryNames)))
                                  (Atom (RegSlugIn (map cleanName registryNames)))],
                 rq_orderBy = [], rq_take = None, rq_skip = None \<rparr>])
       \<and> (\<forall>cq. ComponentGetCount cq
                  \<notin> set (snd (searchComponents (mem_store db) (Some registryNames) query
                                limit0 offset0)))"
proof -
  have "matching_registries db
          [OrE (Atom (RegNameIn (map cleanName registryNames)))
               (Atom (RegSlugIn (map cleanName registryNames)))] = []"
    using assms(2,3) by (auto simp: matching_registries_def filter_empty_conv)
  then have "registry_getMany (mem_store db)
               \<lparr> rq_wheres = [OrE (Atom (RegNameIn (map cleanName registryNames)))
                                  (Atom (RegSlugIn (map cleanName registryNames)))],
                 rq_orderBy = [], rq_take = None, rq_skip = None \<rparr> = Inr []"
    by (simp add: mem_store_def db_registry_getMany_def)
  with assms(1) show ?thesis
    by (simp add: searchComponents_def Let_def nonEmpty_def getManyRegistries_def)
qed

theorem searchComponents_unresolved_registries_witness:
  "[''@antd''] \<noteq> []
   \<and> set (map reg_name (db_registries sample_db)) \<inter> set (map cleanName [''@antd'']) = {}
   \<and> set (map reg_slug (db_registries sample_db)) \<inter> set (map cleanName [''@antd'']) = {}
   \<and> searchComponents (mem_store sample_db) (Some [''@antd'']) (Some ''button'') (Some 10) None =
        (Inr \<lparr> items = [], totalCount = 0, hasMore = False, limit = 10, offset = Some 0 \<rparr>,
         [RegistryGetMany
            \<lparr> rq_wheres = [OrE (Atom (RegNameIn [''antd''])) (Atom (RegSlugIn [''antd'']))],
              rq_orderBy = [], rq_take = None, rq_skip = None \<rparr>])"
proof -
  have h1: "[''@antd''] \<noteq> ([] :: string list)"
    by simp
  have h2: "set (map reg_name (db_registries sample_db)) \<inter> set (map cleanName [''@antd'']) = {}"
    by (simp add: sample_db_def)
  have h3: "set (map reg_slug (db_registries sample_db)) \<inter> set (map cleanName [''@antd'']) = {}"
    by (simp add: sample_db_def)
  show ?thesis
    using searchComponents_unresolved_registries [OF h1 h2 h3, of "Some ''button''" "Some 10" None]
      h2 h3
    by (simp add: withDefault_def)
qed

section \<open>The text filter\<close>



section \<open>No component is dropped for a missing registry\<close>

text \<open>
  C6: in a component search that returns a result, the items are the rows of the paged
  fetch, one for one and in order.  For a row whose registry relation is not loaded and
  whose \<open>registryId\<close> is set, the service looks the registries up by identifier, the
  row's among them.  If the lookup returns a registry with that identifier, the item
  carries its name and slug; if it returns none, the item is still there, with empty
  registry name and slug.
\<close>

theorem searchComponents_backfill:
  assumes "searchComponents st registryNames query limit0 offset0 = (Inr res, tr)"
    and "ComponentGetMany pq \<in> set tr"
    and "component_getMany st pq = Inr rows"
    and "i < length rows"
    and "comp_registry (rows ! i) = None"
    and "comp_registryId (rows ! i) \<noteq> 0"
  shows "map item_id (items res) = map comp_id rows
       \<and> (\<exists>ids regs. RegistryFindByIds ids \<in> set tr
             \<and> comp_registryId (rows ! i) \<in> set ids
             \<and> registry_findByIds st ids = Inr regs
             \<and> (case registryMap regs (comp_registryId (rows ! i)) of
                   Some r \<Rightarrow> r \<in> set regs \<and> reg_id r = comp_registryId (rows ! i)
                            \<and> item_registryName (items res ! i) = reg_name r
                            \<and> item_registrySlug (items res ! i) = reg_slug r
                 | None \<Rightarrow> list_all (\<lambda>r. reg_id r \<noteq> comp_registryId (rows ! i)) regs
                          \<and> item_registryName (items res ! i) = []
                          \<and> item_registrySlug (items res ! i) = []))"
proof -
  from searchComponents_Inr_cases [OF assms(1)] assms(2)
  obtain rids tr0 where
    a: "searchComponentsIn st rids query (withDefault 50 limit0) (withDefault 0 offset0)
          = (Inr res, tr0)"
    and b: "tr = tr0 \<or> (\<exists>rq. tr = RegistryGetMany rq # tr0)"
    by auto
  from searchComponentsIn_Inr [OF a] obtain pq0 cq rows0 rows' tr1 where
    c: "tr0 = ComponentGetMany pq0 # tr1 @ [ComponentGetCount cq]"
    and d: "component_getMany st pq0 = Inr rows0"
    and e: "loadMissingRegistries st rows0 = (Inr rows', tr1)"
    and f: "items res = map formatComponent rows'"
    by blast
  from loadMissingRegistries_trace [OF e] b c assms(2) have "pq = pq0"
    by auto
  with d assms(3) have rows: "rows0 = rows" by simp
  from loadMissingRegistries_rows [OF e [unfolded rows] assms(4,5,6)]
  obtain ids regs where
    g: "tr1 = [RegistryFindByIds ids]" "comp_registryId (rows ! i) \<in> set ids"
       "registry_findByIds st ids = Inr regs"
       "rows' ! i = (rows ! i)\<lparr> comp_registry := registryMap regs (comp_registryId (rows ! i)) \<rparr>"
    by blast
  have len: "i < length rows'"
    using loadMissingRegistries_length [OF e] rows assms(4) by simp
  have it: "items res ! i = formatComponent (rows' ! i)"
    using f len by simp
  have 1: "map item_id (items res) = map comp_id rows"
    using f loadMissingRegistries_ids [OF e] rows by (simp add: o_def)
  have 2: "RegistryFindByIds ids \<in> set tr"
    using b c g(1) by auto
  have 3: "case registryMap regs (comp_registryId (rows ! i)) of
             Some r \<Rightarrow> r \<in> set regs \<and> reg_id r = comp_registryId (rows ! i)
                      \<and> item_registryName (items res ! i) = reg_name r
                      \<and> item_registrySlug (items res ! i) = reg_slug r
           | None \<Rightarrow> list_all (\<lambda>r. reg_id r \<noteq> comp_registryId (rows ! i)) regs
                    \<and> item_registryName (items res ! i) = []
                    \<and> item_registrySlug (items res ! i) = []"
    using registryMap_Some [of regs "comp_registryId (rows ! i)"]
      registryMap_None [of regs "comp_registryId (rows ! i)"]
    by (auto simp: it g(4) formatComponent_def Let_def split: option.splits)
  from 1 2 3 g(2,3) show ?thesis by blast
qed

theorem searchComponents_backfill_witness:
  "searchComponents (unjoined_store sample_db) None None (Some 1) (Some 2) =
       (Inr \<lparr> items = [card_item], totalCount = 3, hasMore = False, limit = 1, offset = Some 2 \<rparr>,
        [ComponentGetMany
           \<lparr> cq_joins = [RelRegistry, RelExamples], cq_wheres = [],
             cq_orderBy = [ByName, ByExamplesName], cq_take = Some 1, cq_skip = Some 2 \<rparr>,
         RegistryFindByIds [1],
         ComponentGetCount
           \<lparr> cq_joins = [], cq_wheres = [], cq_orderBy = [], cq_take = None, cq_skip = None \<rparr>])
   \<and> ComponentGetMany
           \<lparr> cq_joins = [RelRegistry, RelExamples], cq_wheres = [],
             cq_orderBy = [ByName, ByExamplesName], cq_take = Some 1, cq_skip = Some 2 \<rparr>
       \<in> set [ComponentGetMany
           \<lparr> cq_joins = [RelRegistry, RelExamples], cq_wheres = [],
             cq_orderBy = [ByName, ByExamplesName], cq_take = Some 1, cq_skip = Some 2 \<rparr>,
         RegistryFindByIds [1],
         ComponentGetCount
           \<lparr> cq_joins = [], cq_wheres = [], cq_orderBy = [], cq_take = None, cq_skip = None \<rparr>]
   \<and> component_getMany (unjoined_store sample_db)
           \<lparr> cq_joins = [RelRegistry, RelExamples], cq_wheres = [],
             cq_orderBy = [ByName, ByExamplesName], cq_take = Some 1, cq_skip = Some 2 \<rparr>
       = Inr [(db_components sample_db ! 1)\<lparr> comp_examples := Some [] \<rparr>]
   \<and> (0::nat) < length [(db_components sample_db ! 1)\<lparr> comp_examples := Some [] \<rparr>]
   \<and> comp_registry ([(db_components sample_db ! 1)\<lparr> comp_examples := Some [] \<rparr>] ! 0) = None
   \<and> comp_registryId ([(db_components sample_db ! 1)\<lparr> comp_examples := Some [] \<rparr>] ! 0) \<noteq> 0
   \<and> item_registryName card_item = ''shadcn/ui'' \<and> item_registrySlug card_item = ''shadcn''"
proof -
  have h1: "searchComponents (unjoined_store sample_db) None None (Some 1) (Some 2) =
       (Inr \<lparr> items = [card_item], totalCount = 3, hasMore = False, limit = 1, offset = Some 2 \<rparr>,
        [ComponentGetMany
           \<lparr> cq_joins = [RelRegistry, RelExamples], cq_wheres = [],
             cq_orderBy = [ByName, ByExamplesName], cq_take = Some 1, cq_skip = Some 2 \<rparr>,
         RegistryFindByIds [1],
         ComponentGetCount
           \<lparr> cq_joins = [], cq_wheres = [], cq_orderBy = [], cq_take = None, cq_skip = None \<rparr>])"
    by code_simp
  have h2: "ComponentGetMany
           \<lparr> cq_joins = [RelRegistry, RelExamples], cq_wheres = [],
             cq_orderBy = [ByName, ByExamplesName], cq_take = Some 1, cq_skip = Some 2 \<rparr>
       \<in> set [ComponentGetMany
           \<lparr> cq_joins = [RelRegistry, RelExamples], cq_wheres = [],
             cq_orderBy = [ByName, ByExamplesName], cq_take = Some 1, cq_skip = Some 2 \<rparr>,
         RegistryFindByIds [1],
         ComponentGetCount
           \<lparr> cq_joins = [], cq_wheres = [], cq_orderBy = [], cq_take = None, cq_skip = None \<rparr>]"
    by simp
  have h3: "component_getMany (unjoined_store sample_db)
           \<lparr> cq_joins = [RelRegistry, RelExamples], cq_wheres = [],
             cq_orderBy = [ByName, ByExamplesName], cq_take = Some 1, cq_skip = Some 2 \<rparr>
       = Inr [(db_components sample_db ! 1)\<lparr> comp_examples := Some [] \<rparr>]"
    by code_simp
  have h4: "(0::nat) < length [(db_components sample_db ! 1)\<lparr> comp_examples := Some [] \<rparr>]"
    by simp
  have h5: "comp_registry ([(db_components sample_db ! 1)\<lparr> comp_examples := Some [] \<rparr>] ! 0) = None"
    by code_simp
  have h6: "comp_registryId ([(db_components sample_db ! 1)\<lparr> comp_examples := Some [] \<rparr>] ! 0) \<noteq> 0"
    by code_simp
  have c: "item_registryName card_item = ''shadcn/ui'' \<and> item_registrySlug card_item = ''shadcn''"
    by code_simp
  show ?thesis
    using searchComponents_backfill [OF h1 h2 h3 h4 h5 h6] h1 h2 h3 h4 h5 h6 c by simp
qed

text \<open>The component of the sample database whose registry is gone stays in the result.\<close>

lemma orphan_component_listed:
  "map (\<lambda>it. (item_name it, item_registryName it, item_registrySlug it, item_addCommandArgument it))
     (items (projr (fst (searchComponents (mem_store sample_db) None (Some ''orphan'') None None))))
   = [(''Orphan'', [], [], ''orphan'')]"
  by code_simp

section \<open>Errors of the store\<close>

text \<open>
  C5 as stated fails: the services do not pass the error of the store on as it is.  Each
  catches it and throws a new error, whose message is the store's message after the
  name of the operation.  With the store offline, the message \<^verbatim>\<open>connection terminated\<close>
  reaches the HTTP client as \<^verbatim>\<open>Component search failed: connection terminated\<close>.
\<close>

theorem store_error_message_changed:
  "call_failure (offline_store ''connection terminated'')
      (ComponentGetMany
         \<lparr> cq_joins = [RelRegistry, RelExamples],
           cq_wheres =
             [Par (OrE (OrE (Atom (CompNameILike ''%button%''))
                            (Atom (CompDescriptionILike ''%button%'')))
                       (Atom (CompSlugILike ''%button%'')))],
           cq_orderBy = [ByName, ByExamplesName], cq_take = Some 20, cq_skip = Some 0 \<rparr>)
     = Some ''connection terminated''
   \<and> getComponents (offline_store ''connection terminated'') button_request =
       (\<lparr> res_status = 500,
          res_body = JsonError ''Component search failed: connection terminated'' \<rparr>,
        [ComponentGetMany
           \<lparr> cq_joins = [RelRegistry, RelExamples],
             cq_wheres =
               [Par (OrE (OrE (Atom (CompNameILike ''%button%''))
                              (Atom (CompDescriptionILike ''%button%'')))
                         (Atom (CompSlugILike ''%button%'')))],
             cq_orderBy = [ByName, ByExamplesName], cq_take = Some 20, cq_skip = Some 0 \<rparr>])
   \<and> ''Component search failed: connection terminated'' \<noteq> ''connection terminated''"
  by code_simp

text \<open>
  C5 (amended): each of the four search operations passes a failure of the store on as
  a new error whose message is the store's message after a prefix of its own
  (\<^verbatim>\<open>Component search failed: \<close>, \<^verbatim>\<open>Registry search failed: \<close> for both registry searches,
  \<^verbatim>\<open>Example search failed: \<close>): the search stops at the first call that fails, and it
  returns a result only when no call failed.  The adapters do not change the message
  again: \<^verbatim>\<open>GET /api/components\<close> answers 500 with the prefixed message as the error
  of the body, and each of the four tool handlers fails with the error of the search
  it calls and has made no other call to the store.
\<close>

theorem store_errors_reach_adapter_prefixed:
  "propagates st ''Component search failed: '' (searchComponents st registryNames query limit0 offset0)
   \<and> propagates st ''Registry search failed: '' (searchRegistries st registryNames limit0 offset0)
   \<and> propagates st ''Registry search failed: '' (searchAllRegistries st registryNames)
   \<and> propagates st ''Example search failed: '' (searchExamples st registryNames query options)
   \<and> (\<forall>slugs tr1 e tr2.
          resolveRegistrySlugs st req = (Inr slugs, tr1)
          \<longrightarrow> searchComponents st slugs (q_query req) (Some (withDefault 20 (q_limit req)))
                (Some (withDefault 0 (q_offset req))) = (Inl e, tr2)
          \<longrightarrow> getComponents st req = (\<lparr> res_status = 500, res_body = JsonError e \<rparr>, tr1 @ tr2))
   \<and> (\<forall>e tr.
          searchExamples st (map_option (map cleanName) registryNames) (Some q)
            \<lparr> opt_limit = Some 100, opt_type = None, opt_status = None \<rparr> = (Inl e, tr)
          \<longrightarrow> get_item_examples_from_registries st registryNames q = (Inl e, tr))
   \<and> (\<forall>e tr.
          searchComponents st registryNames query limit0 offset0 = (Inl e, tr)
          \<longrightarrow> search_items_in_registries st registryNames query limit0 offset0 = (Inl e, tr))
   \<and> (\<forall>e tr.
          searchAllRegistries st (Some registries) = (Inl e, tr)
          \<longrightarrow> get_available_registries st registries = (Inl e, tr))
   \<and> (\<forall>e tr.
          searchRegistries st (Some registries) limit0 offset0 = (Inl e, tr)
          \<longrightarrow> get_available_ui_components_from_registries st registries limit0 offset0
                = (Inl e, tr))"
proof -
  have 1: "\<forall>slugs tr1 e tr2.
          resolveRegistrySlugs st req = (Inr slugs, tr1)
          \<longrightarrow> searchComponents st slugs (q_query req) (Some (withDefault 20 (q_limit req)))
                (Some (withDefault 0 (q_offset req))) = (Inl e, tr2)
          \<longrightarrow> getComponents st req = (\<lparr> res_status = 500, res_body = JsonError e \<rparr>, tr1 @ tr2)"
    by (simp add: getComponents_def Let_def)
  have 2: "\<forall>e tr.
          searchExamples st (map_option (map cleanName) registryNames) (Some q)
            \<lparr> opt_limit = Some 100, opt_type = None, opt_status = None \<rparr> = (Inl e, tr)
          \<longrightarrow> get_item_examples_from_registries st registryNames q = (Inl e, tr)"
    by (simp add: get_item_examples_from_registries_def Let_def)
  have 3: "\<forall>e tr.
          searchComponents st registryNames query limit0 offset0 = (Inl e, tr)
          \<longrightarrow> search_items_in_registries st registryNames query limit0 offset0 = (Inl e, tr)"
    by (simp add: search_items_in_registries_def)
  have 4: "\<forall>e tr.
          searchAllRegistries st (Some registries) = (Inl e, tr)
          \<longrightarrow> get_available_registries st registries = (Inl e, tr)"
    by (simp add: get_available_registries_def)
  have 5: "\<forall>e tr.
          searchRegistries st (Some registries) limit0 offset0 = (Inl e, tr)
          \<longrightarrow> get_available_ui_components_from_registries st registries limit0 offset0
                = (Inl e, tr)"
    by (simp add: get_available_ui_components_from_registries_def)
  show ?thesis
    by (intro conjI propagates_searchComponents propagates_searchRegistries
        propagates_searchAllRegistries propagates_searchExamples 1 2 3 4 5)
qed

theorem store_errors_reach_adapter_prefixed_witness:
  "resolveRegistrySlugs (offline_store ''connection terminated'') button_request = (Inr None, [])
   \<and> searchComponents (offline_store ''connection terminated'') None (q_query button_request)
         (Some (withDefault 20 (q_limit button_request)))
         (Some (withDefault 0 (q_offset button_request)))
       = (Inl ''Component search failed: connection terminated'',
          [ComponentGetMany
            \<lparr> cq_joins = [RelRegistry, RelExamples],
              cq_wheres =
                [Par (OrE (OrE (Atom (CompNameILike ''%button%''))
                               (Atom (CompDescriptionILike ''%button%'')))
                          (Atom (CompSlugILike ''%button%'')))],
              cq_orderBy = [ByName, ByExamplesName], cq_take = Some 20, cq_skip = Some 0 \<rparr>])
   \<and> getComponents (offline_store ''connection terminated'') button_request
       = (\<lparr> res_status = 500,
            res_body = JsonError ''Component search failed: connection terminated'' \<rparr>,
          [] @ [ComponentGetMany
            \<lparr> cq_joins = [RelRegistry, RelExamples],
              cq_wheres =
                [Par (OrE (OrE (Atom (CompNameILike ''%button%''))
                               (Atom (CompDescriptionILike ''%button%'')))
                          (Atom (CompSlugILike ''%button%'')))],
              cq_orderBy = [ByName, ByExamplesName], cq_take = Some 20, cq_skip = Some 0 \<rparr>])
   \<and> searchExamples (offline_store ''connection terminated'')
         (map_option (map cleanName) (Some [''@shadcn''])) (Some ''button'')
         \<lparr> opt_limit = Some 100, opt_type = None, opt_status = None \<rparr>
       = (Inl ''Example search failed: connection terminated'',
          [RegistryGetMany
            \<lparr> rq_wheres = [OrE (Atom (RegNameIn [''shadcn''])) (Atom (RegSlugIn [''shadcn'']))],
              rq_orderBy = [], rq_take = None, rq_skip = None \<rparr>])
   \<and> get_item_examples_from_registries (offline_store ''connection terminated'') (Some [''@shadcn'']) ''button''
       = (Inl ''Example search failed: connection terminated'',
          [RegistryGetMany
            \<lparr> rq_wheres = [OrE (Atom (RegNameIn [''shadcn''])) (Atom (RegSlugIn [''shadcn'']))],
              rq_orderBy = [], rq_take = None, rq_skip = None \<rparr>])
   \<and> searchComponents (offline_store ''connection terminated'') (Some [''@shadcn'']) (Some ''button'') None None
       = (Inl ''Component search failed: connection terminated'',
          [RegistryGetMany
            \<lparr> rq_wheres = [OrE (Atom (RegNameIn [''shadcn''])) (Atom (RegSlugIn [''shadcn'']))],
              rq_orderBy = [], rq_take = None, rq_skip = None \<rparr>])
   \<and> search_items_in_registries (offline_store ''connection terminated'') (Some [''@shadcn'']) (Some ''button'') None None
       = (Inl ''Component search failed: connection terminated'',
          [RegistryGetMany
            \<lparr> rq_wheres = [OrE (Atom (RegNameIn [''shadcn''])) (Atom (RegSlugIn [''shadcn'']))],
              rq_orderBy = [], rq_take = None, rq_skip = None \<rparr>])
   \<and> propagates (offline_store ''connection terminated'') ''Registry search failed: ''
         (searchRegistries (offline_store ''connection terminated'') (Some [''@shadcn'']) None None)
   \<and> searchAllRegistries (offline_store ''connection terminated'') (Some [''@shadcn''])
       = (Inl ''Registry search failed: connection terminated'',
          [RegistryGetMany
            \<lparr> rq_wheres = [OrE (Atom (RegNameIn [''shadcn''])) (Atom (RegSlugIn [''shadcn''])),
                            Atom RegIsActiveTrue],
              rq_orderBy = [ByName], rq_take = None, rq_skip = None \<rparr>])
   \<and> get_available_registries (offline_store ''connection terminated'') [''@shadcn'']
       = (Inl ''Registry search failed: connection terminated'',
          [RegistryGetMany
            \<lparr> rq_wheres = [OrE (Atom (RegNameIn [''shadcn''])) (Atom (RegSlugIn [''shadcn''])),
                            Atom RegIsActiveTrue],
              rq_orderBy = [ByName], rq_take = None, rq_skip = None \<rparr>])
   \<and> searchRegistries (offline_store ''connection terminated'') (Some [''@shadcn'']) None None
       = (Inl ''Registry search failed: connection terminated'',
          [RegistryGetMany
            \<lparr> rq_wheres = [Par (OrE (Atom (RegNameIn [''shadcn''])) (Atom (RegSlugIn [''shadcn''])))],
              rq_orderBy = [ByName], rq_take = Some 50, rq_skip = Some 0 \<rparr>])
   \<and> get_available_ui_components_from_registries (offline_store ''connection terminated'')
         [''@shadcn''] None None
       = (Inl ''Registry search failed: connection terminated'',
          [RegistryGetMany
            \<lparr> rq_wheres = [Par (OrE (Atom (RegNameIn [''shadcn''])) (Atom (RegSlugIn [''shadcn''])))],
              rq_orderBy = [ByName], rq_take = Some 50, rq_skip = Some 0 \<rparr>])"
proof -
  note t = store_errors_reach_adapter_prefixed
      [of "offline_store ''connection terminated''" "Some [''@shadcn'']" "Some ''button''" None None
          "\<lparr> opt_limit = Some 100, opt_type = None, opt_status = None \<rparr>"
          button_request "''button''" "[''@shadcn'']"]
  have a: "resolveRegistrySlugs (offline_store ''connection terminated'') button_request = (Inr None, [])"
    by code_simp
  have b: "searchComponents (offline_store ''connection terminated'') None (q_query button_request)
         (Some (withDefault 20 (q_limit button_request)))
         (Some (withDefault 0 (q_offset button_request)))
       = (Inl ''Component search failed: connection terminated'',
          [ComponentGetMany
            \<lparr> cq_joins = [RelRegistry, RelExamples],
              cq_wheres =
                [Par (OrE (OrE (Atom (CompNameILike ''%button%''))
                               (Atom (CompDescriptionILike ''%button%'')))
                          (Atom (CompSlugILike ''%button%'')))],
              cq_orderBy = [ByName, ByExamplesName], cq_take = Some 20, cq_skip = Some 0 \<rparr>])"
    by code_simp
  have c: "searchExamples (offline_store ''connection terminated'')
         (map_option (map cleanName) (Some [''@shadcn''])) (Some ''button'')
         \<lparr> opt_limit = Some 100, opt_type = None, opt_status = None \<rparr>
       = (Inl ''Example search failed: connection terminated'',
          [RegistryGetMany
            \<lparr> rq_wheres = [OrE (Atom (RegNameIn [''shadcn''])) (Atom (RegSlugIn [''shadcn'']))],
              rq_orderBy = [], rq_take = None, rq_skip = None \<rparr>])"
    by code_simp
  have d: "searchComponents (offline_store ''connection terminated'') (Some [''@shadcn'']) (Some ''button'') None None
       = (Inl ''Component search failed: connection terminated'',
          [RegistryGetMany
            \<lparr> rq_wheres = [OrE (Atom (RegNameIn [''shadcn''])) (Atom (RegSlugIn [''shadcn'']))],
              rq_orderBy = [], rq_take = None, rq_skip = None \<rparr>])"
    by code_simp
  have e: "getComponents (offline_store ''connection terminated'') button_request
       = (\<lparr> res_status = 500,
            res_body = JsonError ''Component search failed: connection terminated'' \<rparr>,
          [] @ [ComponentGetMany
            \<lparr> cq_joins = [RelRegistry, RelExamples],
              cq_wheres =
                [Par (OrE (OrE (Atom (CompNameILike ''%button%''))
                               (Atom (CompDescriptionILike ''%button%'')))
                          (Atom (CompSlugILike ''%button%'')))],
              cq_orderBy = [ByName, ByExamplesName], cq_take = Some 20, cq_skip = Some 0 \<rparr>])"
    by (rule t [THEN conjunct2, THEN conjunct2, THEN conjunct2, THEN conjunct2, THEN conjunct1,
                rule_format, OF a b])
  have f: "get_item_examples_from_registries (offline_store ''connection terminated'') (Some [''@shadcn'']) ''button''
       = (Inl ''Example search failed: connection terminated'',
          [RegistryGetMany
            \<lparr> rq_wheres = [OrE (Atom (RegNameIn [''shadcn''])) (Atom (RegSlugIn [''shadcn'']))],
              rq_orderBy = [], rq_take = None, rq_skip = None \<rparr>])"
    by (rule t [THEN conjunct2, THEN conjunct2, THEN conjunct2, THEN conjunct2, THEN conjunct2,
                THEN conjunct1, rule_format, OF c])
  have g: "search_items_in_registries (offline_store ''connection terminated'') (Some [''@shadcn'']) (Some ''button'') None None
       = (Inl ''Component search failed: connection terminated'',
          [RegistryGetMany
            \<lparr> rq_wheres = [OrE (Atom (RegNameIn [''shadcn''])) (Atom (RegSlugIn [''shadcn'']))],
              rq_orderBy = [], rq_take = None, rq_skip = None \<rparr>])"
    by (rule t [THEN conjunct2, THEN conjunct2, THEN conjunct2, THEN conjunct2, THEN conjunct2,
                THEN conjunct2, THEN conjunct1, rule_format, OF d])
  have h: "propagates (offline_store ''connection terminated'') ''Registry search failed: ''
         (searchRegistries (offline_store ''connection terminated'') (Some [''@shadcn'']) None None)"
    by (rule t [THEN conjunct2, THEN conjunct1])
  have i: "searchAllRegistries (offline_store ''connection terminated'') (Some [''@shadcn''])
       = (Inl ''Registry search failed: connection terminated'',
          [RegistryGetMany
            \<lparr> rq_wheres = [OrE (Atom (RegNameIn [''shadcn''])) (Atom (RegSlugIn [''shadcn''])),
                            Atom RegIsActiveTrue],
              rq_orderBy = [ByName], rq_take = None, rq_skip = None \<rparr>])"
    by code_simp
  have j: "get_available_registries (offline_store ''connection terminated'') [''@shadcn'']
       = (Inl ''Registry search failed: connection terminated'',
          [RegistryGetMany
            \<lparr> rq_wheres = [OrE (Atom (RegNameIn [''shadcn''])) (Atom (RegSlugIn [''shadcn''])),
                            Atom RegIsActiveTrue],
              rq_orderBy = [ByName], rq_take = None, rq_skip = None \<rparr>])"
    by (rule t [THEN conjunct2, THEN conjunct2, THEN conjunct2, THEN conjunct2, THEN conjunct2,
                THEN conjunct2, THEN conjunct2, THEN conjunct1, rule_format, OF i])
  have k: "searchRegistries (offline_store ''connection terminated'') (Some [''@shadcn'']) None None
       = (Inl ''Registry search failed: connection terminated'',
          [RegistryGetMany
            \<lparr> rq_wheres = [Par (OrE (Atom (RegNameIn [''shadcn''])) (Atom (RegSlugIn [''shadcn''])))],
              rq_orderBy = [ByName], rq_take = Some 50, rq_skip = Some 0 \<rparr>])"
    by code_simp
  have l: "get_available_ui_components_from_registries (offline_store ''connection terminated'')
         [''@shadcn''] None None
       = (Inl ''Registry search failed: connection terminated'',
          [RegistryGetMany
            \<lparr> rq_wheres = [Par (OrE (Atom (RegNameIn [''shadcn''])) (Atom (RegSlugIn [''shadcn''])))],
              rq_orderBy = [ByName], rq_take = Some 50, rq_skip = Some 0 \<rparr>])"
    by (rule t [THEN conjunct2, THEN conjunct2, THEN conjunct2, THEN conjunct2, THEN conjunct2,
                THEN conjunct2, THEN conjunct2, THEN conjunct2, rule_format, OF k])
  show ?thesis
    by (intro conjI a b c d e f g h i j k l)
qed

section \<open>Defaults of limit and offset\<close>

text \<open>
  C9: whatever the store answers, the paged fetch of \<open>searchComponents\<close> takes the
  caller's limit, or 50 when the caller gave none, and skips the caller's offset, or 0;
  the fetch made for \<^verbatim>\<open>GET /api/components\<close> takes the limit of the query string, or 20
  when it has none, and skips its offset, or 0; and the example search made for the tool
  \<^verbatim>\<open>get_item_examples_from_registries\<close> takes 100.  A component search that returns
  echoes the limit and the offset it used.
\<close>

theorem limit_and_offset_defaults:
  "(ComponentGetMany pq \<in> set (snd (searchComponents st registryNames query limit0 offset0))
      \<longrightarrow> cq_take pq = Some (withDefault 50 limit0) \<and> cq_skip pq = Some (withDefault 0 offset0))
   \<and> (searchComponents st registryNames query limit0 offset0 = (Inr res, tr)
      \<longrightarrow> limit res = withDefault 50 limit0 \<and> offset res = Some (withDefault 0 offset0))
   \<and> (ComponentGetMany pq' \<in> set (snd (getComponents st req))
      \<longrightarrow> cq_take pq' = Some (withDefault 20 (q_limit req))
          \<and> cq_skip pq' = Some (withDefault 0 (q_offset req)))
   \<and> (ExampleGetMany xq \<in> set (snd (get_item_examples_from_registries st registryNames q))
      \<longrightarrow> eq_take xq = Some 100)
   \<and> withDefault 50 None = (50::int) \<and> withDefault 20 None = (20::int)
   \<and> withDefault 0 None = (0::int)"
proof -
  have echo: "searchComponents st registryNames query limit0 offset0 = (Inr res, tr)
      \<longrightarrow> limit res = withDefault 50 limit0 \<and> offset res = Some (withDefault 0 offset0)"
  proof
    assume a: "searchComponents st registryNames query limit0 offset0 = (Inr res, tr)"
    from searchComponents_Inr_cases [OF a]
    show "limit res = withDefault 50 limit0 \<and> offset res = Some (withDefault 0 offset0)"
      by (auto dest: searchComponentsIn_Inr)
  qed
  show ?thesis
    using searchComponents_paged_query [of pq st registryNames query limit0 offset0]
      getComponents_paged_query [of pq' st req]
      tool_examples_query [of xq st registryNames q] echo
    by (simp add: withDefault_def)
qed

theorem limit_and_offset_defaults_witness:
  "ComponentGetMany
         \<lparr> cq_joins = [RelRegistry, RelExamples], cq_wheres = [],
           cq_orderBy = [ByName, ByExamplesName], cq_take = Some 50, cq_skip = Some 0 \<rparr>
       \<in> set (snd (searchComponents (mem_store sample_db) None None None None))
   \<and> cq_take \<lparr> cq_joins = [RelRegistry, RelExamples], cq_wheres = [],
             cq_orderBy = [ByName, ByExamplesName], cq_take = Some 50, cq_skip = Some 0 \<rparr> = Some (withDefault 50 None)
       \<and> cq_skip \<lparr> cq_joins = [RelRegistry, RelExamples], cq_wheres = [],
             cq_orderBy = [ByName, ByExamplesName], cq_take = Some 50, cq_skip = Some 0 \<rparr> = Some (withDefault 0 None)
   \<and> ComponentGetMany
         \<lparr> cq_joins = [RelRegistry, RelExamples],
           cq_wheres =
             [Par (OrE (OrE (Atom (CompNameILike ''%button%''))
                            (Atom (CompDescriptionILike ''%button%'')))
                       (Atom (CompSlugILike ''%button%'')))],
           cq_orderBy = [ByName, ByExamplesName], cq_take = Some 20, cq_skip = Some 0 \<rparr>
       \<in> set (snd (getComponents (mem_store sample_db) button_request))
   \<and> cq_take \<lparr> cq_joins = [RelRegistry, RelExamples],
             cq_wheres =
               [Par (OrE (OrE (Atom (CompNameILike ''%button%''))
                              (Atom (CompDescriptionILike ''%button%'')))
                         (Atom (CompSlugILike ''%button%'')))],
             cq_orderBy = [ByName, ByExamplesName], cq_take = Some 20, cq_skip = Some 0 \<rparr> = Some (withDefault 20 (q_limit button_request))
       \<and> cq_skip \<lparr> cq_joins = [RelRegistry, RelExamples],
             cq_wheres =
               [Par (OrE (OrE (Atom (CompNameILike ''%button%''))
                              (Atom (CompDescriptionILike ''%button%'')))
                         (Atom (CompSlugILike ''%button%'')))],
             cq_orderBy = [ByName, ByExamplesName], cq_take = Some 20, cq_skip = Some 0 \<rparr> = Some (withDefault 0 (q_offset button_request))
   \<and> ExampleGetMany
         \<lparr> eq_joins = [RelComponent, RelComponentRegistry],
           eq_wheres =
             [Par (OrE (Atom (ExNameILike ''%button%'')) (Atom (ExSlugILike ''%button%'')))],
           eq_orderBy = [ByName], eq_take = Some 100 \<rparr>
       \<in> set (snd (get_item_examples_from_registries (mem_store sample_db) None ''button''))
   \<and> eq_take \<lparr> eq_joins = [RelComponent, RelComponentRegistry],
             eq_wheres =
               [Par (OrE (Atom (ExNameILike ''%button%'')) (Atom (ExSlugILike ''%button%'')))],
             eq_orderBy = [ByName], eq_take = Some 100 \<rparr> = Some 100"
proof -
  note t = limit_and_offset_defaults
      [of "\<lparr> cq_joins = [RelRegistry, RelExamples], cq_wheres = [],
           cq_orderBy = [ByName, ByExamplesName], cq_take = Some 50, cq_skip = Some 0 \<rparr>"
          "mem_store sample_db" None None None None _ _
          "\<lparr> cq_joins = [RelRegistry, RelExamples],
           cq_wheres =
             [Par (OrE (OrE (Atom (CompNameILike ''%button%''))
                            (Atom (CompDescriptionILike ''%button%'')))
                       (Atom (CompSlugILike ''%button%'')))],
           cq_orderBy = [ByName, ByExamplesName], cq_take = Some 20, cq_skip = Some 0 \<rparr>"
          button_request
          "\<lparr> eq_joins = [RelComponent, RelComponentRegistry],
           eq_wheres =
             [Par (OrE (Atom (ExNameILike ''%button%'')) (Atom (ExSlugILike ''%button%'')))],
           eq_orderBy = [ByName], eq_take = Some 100 \<rparr>" "''button''"]
  have m1: "ComponentGetMany
         \<lparr> cq_joins = [RelRegistry, RelExamples], cq_wheres = [],
           cq_orderBy = [ByName, ByExamplesName], cq_take = Some 50, cq_skip = Some 0 \<rparr>
       \<in> set (snd (searchComponents (mem_store sample_db) None None None None))"
    by code_simp
  have m2: "ComponentGetMany
         \<lparr> cq_joins = [RelRegistry, RelExamples],
           cq_wheres =
             [Par (OrE (OrE (Atom (CompNameILike ''%button%''))
                            (Atom (CompDescriptionILike ''%button%'')))
                       (Atom (CompSlugILike ''%button%'')))],
           cq_orderBy = [ByName, ByExamplesName], cq_take = Some 20, cq_skip = Some 0 \<rparr>
       \<in> set (snd (getComponents (mem_store sample_db) button_request))"
    by code_simp
  have m3: "ExampleGetMany
         \<lparr> eq_joins = [RelComponent, RelComponentRegistry],
           eq_wheres =
             [Par (OrE (Atom (ExNameILike ''%button%'')) (Atom (ExSlugILike ''%button%'')))],
           eq_orderBy = [ByName], eq_take = Some 100 \<rparr>
       \<in> set (snd (get_item_examples_from_registries (mem_store sample_db) None ''button''))"
    by code_simp
  have c1: "cq_take \<lparr> cq_joins = [RelRegistry, RelExamples], cq_wheres = [],
             cq_orderBy = [ByName, ByExamplesName], cq_take = Some 50, cq_skip = Some 0 \<rparr> = Some (withDefault 50 None)
       \<and> cq_skip \<lparr> cq_joins = [RelRegistry, RelExamples], cq_wheres = [],
             cq_orderBy = [ByName, ByExamplesName], cq_take = Some 50, cq_skip = Some 0 \<rparr> = Some (withDefault 0 None)"
    by (rule t [THEN conjunct1, rule_format, OF m1])
  have c2: "cq_take \<lparr> cq_joins = [RelRegistry, RelExamples],
             cq_wheres =
               [Par (OrE (OrE (Atom (CompNameILike ''%button%''))
                              (Atom (CompDescriptionILike ''%button%'')))
                         (Atom (CompSlugILike ''%button%'')))],
             cq_orderBy = [ByName, ByExamplesName], cq_take = Some 20, cq_skip = Some 0 \<rparr> = Some (withDefault 20 (q_limit button_request))
       \<and> cq_skip \<lparr> cq_joins = [RelRegistry, RelExamples],
             cq_wheres =
               [Par (OrE (OrE (Atom (CompNameILike ''%button%''))
                              (Atom (CompDescriptionILike ''%button%'')))
                         (Atom (CompSlugILike ''%button%'')))],
             cq_orderBy = [ByName, ByExamplesName], cq_take = Some 20, cq_skip = Some 0 \<rparr> = Some (withDefault 0 (q_offset button_request))"
    by (rule t [THEN conjunct2, THEN conjunct2, THEN conjunct1, rule_format, OF m2])
  have c3: "eq_take \<lparr> eq_joins = [RelComponent, RelComponentRegistry],
             eq_wheres =
               [Par (OrE (Atom (ExNameILike ''%button%'')) (Atom (ExSlugILike ''%button%'')))],
             eq_orderBy = [ByName], eq_take = Some 100 \<rparr> = Some 100"
    by (rule t [THEN conjunct2, THEN conjunct2, THEN conjunct2, THEN conjunct1, rule_format, OF m3])
  show ?thesis
    by (intro conjI m1 m2 m3 c1 [THEN conjunct1] c1 [THEN conjunct2] c2 [THEN conjunct1]
        c2 [THEN conjunct2] c3)
qed

section \<open>Listing the registries\<close>

text \<open>
  C10: \<open>searchAllRegistries\<close> issues one registry query.  The condition
  \<^verbatim>\<open>is_Active = true\<close> is among its conditions exactly when a non-empty list of registry
  identifiers is given.  Called with no identifiers (none at all, or an empty list) it
  returns every registry of the database, inactive ones included, in the order of the
  names under the collation of the database.
\<close>

theorem searchAllRegistries_active_only_when_filtered:
  "(registries = None \<or> registries = Some [] \<longrightarrow>
      searchAllRegistries (mem_store db) registries =
        (Inr \<lparr> items = map (\<lambda>registry. formatRegistry registry None True)
                         (sort_by (db_collate db) reg_name (db_registries db)),
               totalCount = length (db_registries db),
               hasMore = False,
               limit = int (length (db_registries db)),
               offset = Some 0 \<rparr>,
         [RegistryGetMany
            \<lparr> rq_wheres = [], rq_orderBy = [ByName], rq_take = None, rq_skip = None \<rparr>]))
   \<and> (\<exists>rq. snd (searchAllRegistries st registries) = [RegistryGetMany rq]
            \<and> (Atom RegIsActiveTrue \<in> set (rq_wheres rq)) = nonEmpty registries)"
proof -
  have g: "registry_getMany (mem_store db)
             \<lparr> rq_wheres = [], rq_orderBy = [ByName], rq_take = None, rq_skip = None \<rparr>
           = Inr (sort_by (db_collate db) reg_name (db_registries db))"
    by (simp add: mem_store_def db_registry_getMany_def matching_registries_def)
  have a: "registries = None \<or> registries = Some [] \<longrightarrow>
      searchAllRegistries (mem_store db) registries =
        (Inr \<lparr> items = map (\<lambda>registry. formatRegistry registry None True)
                         (sort_by (db_collate db) reg_name (db_registries db)),
               totalCount = length (db_registries db),
               hasMore = False,
               limit = int (length (db_registries db)),
               offset = Some 0 \<rparr>,
         [RegistryGetMany
            \<lparr> rq_wheres = [], rq_orderBy = [ByName], rq_take = None, rq_skip = None \<rparr>])"
    by (auto simp: searchAllRegistries_def Let_def nonEmpty_def getManyRegistries_def g)
  have b: "\<exists>rq. snd (searchAllRegistries st registries) = [RegistryGetMany rq]
            \<and> (Atom RegIsActiveTrue \<in> set (rq_wheres rq)) = nonEmpty registries"
    by (auto simp: searchAllRegistries_def Let_def getManyRegistries_def bind_def ret_def
        split: sum.splits)
  from a b show ?thesis by blast
qed

theorem searchAllRegistries_active_only_when_filtered_witness:
  "(None = None \<or> None = Some ([] :: string list))
   \<and> searchAllRegistries (mem_store sample_db) None =
        (Inr \<lparr> items = map (\<lambda>registry. formatRegistry registry None True)
                         (sort_by (db_collate sample_db) reg_name (db_registries sample_db)),
               totalCount = length (db_registries sample_db),
               hasMore = False,
               limit = int (length (db_registries sample_db)),
               offset = Some 0 \<rparr>,
         [RegistryGetMany
            \<lparr> rq_wheres = [], rq_orderBy = [ByName], rq_take = None, rq_skip = None \<rparr>])
   \<and> map (\<lambda>r. (reg_name r, reg_isActive r)) (sort_by (db_collate sample_db) reg_name (db_registries sample_db))
       = [(''Legacy Kit'', False), (''shadcn/ui'', True)]"
proof -
  have h: "None = None \<or> None = Some ([] :: string list)"
    by simp
  have c: "map (\<lambda>r. (reg_name r, reg_isActive r)) (sort_by (db_collate sample_db) reg_name (db_registries sample_db))
       = [(''Legacy Kit'', False), (''shadcn/ui'', True)]"
    by code_simp
  note t = searchAllRegistries_active_only_when_filtered
      [of None sample_db "mem_store sample_db", THEN conjunct1, rule_format, OF h]
  show ?thesis
    by (intro conjI h t c)
qed

text \<open>
  With identifiers the two conditions are joined as SQL text, and \<^verbatim>\<open>AND\<close> binds tighter
  than the \<^verbatim>\<open>OR\<close> of the first: the inactive registry of the sample database is not found
  by its slug, and is found by its name.
\<close>

lemma searchAllRegistries_inactive_by_slug_and_by_name:
  "map ritem_name (items (projr (fst (searchAllRegistries (mem_store sample_db) (Some [''@legacy''])))))
     = []
   \<and> map ritem_name (items (projr (fst (searchAllRegistries (mem_store sample_db)
                                            (Some [''Legacy Kit''])))))
     = [''Legacy Kit'']"
  by code_simp

section \<open>Validation of a new component\<close>

text \<open>
  C3 as stated fails: \<^verbatim>\<open>POST /api/components\<close> checks that \<^verbatim>\<open>name\<close>, \<^verbatim>\<open>slug\<close> and \<^verbatim>\<open>type\<close>
  are there, not what they are.  A body with the type \<^verbatim>\<open>widget\<close> and the status
  \<^verbatim>\<open>experimental\<close> is answered 201, and the row is stored with both.  The enumeration of
  the source, besides, names \<^verbatim>\<open>biz\<close> where the claim names \<^verbatim>\<open>business\<close>.
\<close>

theorem postComponent_accepts_any_type:
  "res_status (fst (postComponent sample_db widget_body)) = 201
   \<and> map (\<lambda>c. (comp_name c, comp_type c, comp_status c))
         (db_components (snd (postComponent sample_db widget_body)))
       = [(''Button'', ''input-control'', ''stable''), (''Card'', ''container'', ''beta''),
          (''Orphan'', ''biz'', ''alpha''), (''Gauge'', ''widget'', ''experimental'')]
   \<and> ''widget'' \<notin> set specComponentType \<and> ''widget'' \<notin> set ComponentType
   \<and> ''experimental'' \<notin> set ComponentStatus
   \<and> ''biz'' \<in> set ComponentType \<and> ''biz'' \<notin> set specComponentType"
  by code_simp

text \<open>
  C3 (amended): \<^verbatim>\<open>POST /api/components\<close> answers 400 exactly when \<^verbatim>\<open>name\<close>, \<^verbatim>\<open>slug\<close> or
  \<^verbatim>\<open>type\<close> is missing or empty, or when there is neither a \<^verbatim>\<open>registryId\<close> nor a
  \<^verbatim>\<open>registrySlug\<close>.  It answers 404 exactly when these three are there, there is no
  \<^verbatim>\<open>registryId\<close>, and the \<^verbatim>\<open>registrySlug\<close> is the slug of no registry; the error names
  the slug, and nothing is stored.  It compares neither \<^verbatim>\<open>type\<close> nor \<^verbatim>\<open>status\<close> with an
  enumeration: for a registry that exists, given by its identifier or found by its
  slug, and a slug that the registry does not have yet, when none of \<^verbatim>\<open>dependencies\<close>,
  \<^verbatim>\<open>status\<close> and \<^verbatim>\<open>metadata\<close> is \<^verbatim>\<open>null\<close>, the component is created (201) and stored
  with the type of the body, whatever it is, and with the status of the body, or
  \<^verbatim>\<open>stable\<close> when the body has none.  When one of \<^verbatim>\<open>dependencies\<close>, \<^verbatim>\<open>status\<close> and
  \<^verbatim>\<open>metadata\<close> is \<^verbatim>\<open>null\<close>, the answer is 500 and nothing is stored.
\<close>

theorem postComponent_checks_presence_only:
  "(res_status (fst (postComponent db b)) = 400)
     = (\<not> truthy (b_name b) \<or> \<not> truthy (b_slug b) \<or> \<not> truthy (b_type b)
        \<or> ((b_registryId b = None \<or> b_registryId b = Some 0) \<and> \<not> truthy (b_registrySlug b)))
   \<and> (res_status (fst (postComponent db b)) = 404)
     = (truthy (b_name b) \<and> truthy (b_slug b) \<and> truthy (b_type b)
        \<and> (b_registryId b = None \<or> b_registryId b = Some 0) \<and> truthy (b_registrySlug b)
        \<and> db_findOneRegistryBySlug db (the (b_registrySlug b)) = None)
   \<and> (truthy (b_name b) \<and> truthy (b_slug b) \<and> truthy (b_type b)
        \<and> (b_registryId b = None \<or> b_registryId b = Some 0) \<and> truthy (b_registrySlug b)
        \<and> db_findOneRegistryBySlug db (the (b_registrySlug b)) = None
      \<longrightarrow> postComponent db b
            = (\<lparr> res_status = 404,
                 res_body = JsonError (''Registry with slug '' @ [CHR 0x22] @ the (b_registrySlug b)
                                       @ [CHR 0x22] @ '' not found'') \<rparr>, db))
   \<and> (truthy (b_name b) \<and> truthy (b_slug b) \<and> truthy (b_type b)
        \<and> ((b_registryId b = Some rid \<and> rid \<noteq> 0
              \<and> list_ex (\<lambda>r. reg_id r = rid) (db_registries db))
           \<or> ((b_registryId b = None \<or> b_registryId b = Some 0) \<and> truthy (b_registrySlug b)
              \<and> map_option reg_id (db_findOneRegistryBySlug db (the (b_registrySlug b)))
                  = Some rid))
        \<and> \<not> list_ex (\<lambda>c. comp_registryId c = rid \<and> comp_slug c = the (b_slug b))
                   (db_components db)
        \<and> b_dependencies b \<noteq> Null \<and> b_status b \<noteq> Null \<and> b_metadata b \<noteq> Null
      \<longrightarrow> (\<exists>c row. postComponent db b
                      = (\<lparr> res_status = 201, res_body = JsonComponent (Some c) \<rparr>,
                         db\<lparr> db_components := db_components db @ [row] \<rparr>)
                  \<and> comp_type c = the (b_type b)
                  \<and> comp_status c = (case b_status b of Value s \<Rightarrow> s | _ \<Rightarrow> ''stable'')
                  \<and> comp_type row = the (b_type b)
                  \<and> comp_status row = (case b_status b of Value s \<Rightarrow> s | _ \<Rightarrow> ''stable'')))
   \<and> (truthy (b_name b) \<and> truthy (b_slug b) \<and> truthy (b_type b)
        \<and> ((b_registryId b = Some rid \<and> rid \<noteq> 0)
           \<or> ((b_registryId b = None \<or> b_registryId b = Some 0) \<and> truthy (b_registrySlug b)
              \<and> map_option reg_id (db_findOneRegistryBySlug db (the (b_registrySlug b)))
                  = Some rid))
        \<and> (b_dependencies b = Null \<or> b_status b = Null \<or> b_metadata b = Null)
      \<longrightarrow> res_status (fst (postComponent db b)) = 500 \<and> snd (postComponent db b) = db)"
proof -
  have s: "res_status (fst (createComponent db b i)) \<noteq> 400"
    "res_status (fst (createComponent db b i)) \<noteq> 404" for i
    using createComponent_status [of db b i] by auto
  have 1: "(res_status (fst (postComponent db b)) = 400)
     = (\<not> truthy (b_name b) \<or> \<not> truthy (b_slug b) \<or> \<not> truthy (b_type b)
        \<or> ((b_registryId b = None \<or> b_registryId b = Some 0) \<and> \<not> truthy (b_registrySlug b)))"
    by (auto simp: postComponent_def s split: option.splits)
  have 2: "(res_status (fst (postComponent db b)) = 404)
     = (truthy (b_name b) \<and> truthy (b_slug b) \<and> truthy (b_type b)
        \<and> (b_registryId b = None \<or> b_registryId b = Some 0) \<and> truthy (b_registrySlug b)
        \<and> db_findOneRegistryBySlug db (the (b_registrySlug b)) = None)"
    by (auto simp: postComponent_def s split: option.splits)
  have 3: "(truthy (b_name b) \<and> truthy (b_slug b) \<and> truthy (b_type b)
        \<and> (b_registryId b = None \<or> b_registryId b = Some 0) \<and> truthy (b_registrySlug b)
        \<and> db_findOneRegistryBySlug db (the (b_registrySlug b)) = None
      \<longrightarrow> postComponent db b
            = (\<lparr> res_status = 404,
                 res_body = JsonError (''Registry with slug '' @ [CHR 0x22] @ the (b_registrySlug b)
                                       @ [CHR 0x22] @ '' not found'') \<rparr>, db))"
    by (auto simp: postComponent_def)
  have 4: "(truthy (b_name b) \<and> truthy (b_slug b) \<and> truthy (b_type b)
        \<and> ((b_registryId b = Some rid \<and> rid \<noteq> 0
              \<and> list_ex (\<lambda>r. reg_id r = rid) (db_registries db))
           \<or> ((b_registryId b = None \<or> b_registryId b = Some 0) \<and> truthy (b_registrySlug b)
              \<and> map_option reg_id (db_findOneRegistryBySlug db (the (b_registrySlug b)))
                  = Some rid))
        \<and> \<not> list_ex (\<lambda>c. comp_registryId c = rid \<and> comp_slug c = the (b_slug b))
                   (db_components db)
        \<and> b_dependencies b \<noteq> Null \<and> b_status b \<noteq> Null \<and> b_metadata b \<noteq> Null
      \<longrightarrow> (\<exists>c row. postComponent db b
                      = (\<lparr> res_status = 201, res_body = JsonComponent (Some c) \<rparr>,
                         db\<lparr> db_components := db_components db @ [row] \<rparr>)
                  \<and> comp_type c = the (b_type b)
                  \<and> comp_status c = (case b_status b of Value s \<Rightarrow> s | _ \<Rightarrow> ''stable'')
                  \<and> comp_type row = the (b_type b)
                  \<and> comp_status row = (case b_status b of Value s \<Rightarrow> s | _ \<Rightarrow> ''stable'')))"
  proof (intro impI)
    assume h: "truthy (b_name b) \<and> truthy (b_slug b) \<and> truthy (b_type b)
        \<and> ((b_registryId b = Some rid \<and> rid \<noteq> 0
              \<and> list_ex (\<lambda>r. reg_id r = rid) (db_registries db))
           \<or> ((b_registryId b = None \<or> b_registryId b = Some 0) \<and> truthy (b_registrySlug b)
              \<and> map_option reg_id (db_findOneRegistryBySlug db (the (b_registrySlug b)))
                  = Some rid))
        \<and> \<not> list_ex (\<lambda>c. comp_registryId c = rid \<and> comp_slug c = the (b_slug b))
                   (db_components db)
        \<and> b_dependencies b \<noteq> Null \<and> b_status b \<noteq> Null \<and> b_metadata b \<noteq> Null"
    then have pres: "truthy (b_name b) \<and> truthy (b_slug b) \<and> truthy (b_type b)" by blast
    from h have free: "\<not> list_ex (\<lambda>c. comp_registryId c = rid \<and> comp_slug c = the (b_slug b))
                   (db_components db)"
      and nn: "b_dependencies b \<noteq> Null" "b_status b \<noteq> Null" "b_metadata b \<noteq> Null"
      by blast+
    from h consider
      (byId) "b_registryId b = Some rid" "rid \<noteq> 0"
        "list_ex (\<lambda>r. reg_id r = rid) (db_registries db)"
    | (bySlug) "b_registryId b = None \<or> b_registryId b = Some 0" "truthy (b_registrySlug b)"
        "map_option reg_id (db_findOneRegistryBySlug db (the (b_registrySlug b))) = Some rid"
      by blast
    then show "\<exists>c row. postComponent db b
                      = (\<lparr> res_status = 201, res_body = JsonComponent (Some c) \<rparr>,
                         db\<lparr> db_components := db_components db @ [row] \<rparr>)
                  \<and> comp_type c = the (b_type b)
                  \<and> comp_status c = (case b_status b of Value s \<Rightarrow> s | _ \<Rightarrow> ''stable'')
                  \<and> comp_type row = the (b_type b)
                  \<and> comp_status row = (case b_status b of Value s \<Rightarrow> s | _ \<Rightarrow> ''stable'')"
    proof cases
      case byId
      have "postComponent db b = createComponent db b rid"
        using pres byId(1,2) by (simp add: postComponent_def)
      with createComponent_created [OF byId(3) free nn] show ?thesis by simp
    next
      case bySlug
      from bySlug(3) obtain r where
        r: "db_findOneRegistryBySlug db (the (b_registrySlug b)) = Some r" "reg_id r = rid"
        by auto
      have e: "list_ex (\<lambda>x. reg_id x = rid) (db_registries db)"
        using found_by_slug_exists [OF r(1)] r(2) by simp
      have "postComponent db b = createComponent db b rid"
        using pres bySlug(1,2) r by (auto simp: postComponent_def)
      with createComponent_created [OF e free nn] show ?thesis by simp
    qed
  qed
  have 5: "(truthy (b_name b) \<and> truthy (b_slug b) \<and> truthy (b_type b)
        \<and> ((b_registryId b = Some rid \<and> rid \<noteq> 0)
           \<or> ((b_registryId b = None \<or> b_registryId b = Some 0) \<and> truthy (b_registrySlug b)
              \<and> map_option reg_id (db_findOneRegistryBySlug db (the (b_registrySlug b)))
                  = Some rid))
        \<and> (b_dependencies b = Null \<or> b_status b = Null \<or> b_metadata b = Null)
      \<longrightarrow> res_status (fst (postComponent db b)) = 500 \<and> snd (postComponent db b) = db)"
  proof (intro impI)
    assume h: "truthy (b_name b) \<and> truthy (b_slug b) \<and> truthy (b_type b)
        \<and> ((b_registryId b = Some rid \<and> rid \<noteq> 0)
           \<or> ((b_registryId b = None \<or> b_registryId b = Some 0) \<and> truthy (b_registrySlug b)
              \<and> map_option reg_id (db_findOneRegistryBySlug db (the (b_registrySlug b)))
                  = Some rid))
        \<and> (b_dependencies b = Null \<or> b_status b = Null \<or> b_metadata b = Null)"
    then have pres: "truthy (b_name b) \<and> truthy (b_slug b) \<and> truthy (b_type b)" by blast
    from h have n: "b_dependencies b = Null \<or> b_status b = Null \<or> b_metadata b = Null"
      by blast
    from h consider
      (byId) "b_registryId b = Some rid" "rid \<noteq> 0"
    | (bySlug) "b_registryId b = None \<or> b_registryId b = Some 0" "truthy (b_registrySlug b)"
        "map_option reg_id (db_findOneRegistryBySlug db (the (b_registrySlug b))) = Some rid"
      by blast
    then have "postComponent db b = createComponent db b rid"
    proof cases
      case byId
      then show ?thesis using pres by (simp add: postComponent_def)
    next
      case bySlug
      then show ?thesis using pres by (auto simp: postComponent_def)
    qed
    with createComponent_null [OF n, of db rid]
    show "res_status (fst (postComponent db b)) = 500 \<and> snd (postComponent db b) = db"
      by simp
  qed
  from 1 2 3 4 5 show ?thesis by (intro conjI)
qed

theorem postComponent_checks_presence_only_witness:
  "(truthy (b_name widget_body) \<and> truthy (b_slug widget_body) \<and> truthy (b_type widget_body)
        \<and> ((b_registryId widget_body = Some (1::int) \<and> (1::int) \<noteq> 0
              \<and> list_ex (\<lambda>r. reg_id r = (1::int)) (db_registries sample_db))
           \<or> ((b_registryId widget_body = None \<or> b_registryId widget_body = Some 0) \<and> truthy (b_registrySlug widget_body)
              \<and> map_option reg_id (db_findOneRegistryBySlug sample_db (the (b_registrySlug widget_body)))
                  = Some (1::int)))
        \<and> \<not> list_ex (\<lambda>c. comp_registryId c = (1::int) \<and> comp_slug c = the (b_slug widget_body))
                   (db_components sample_db)
        \<and> b_dependencies widget_body \<noteq> Null \<and> b_status widget_body \<noteq> Null \<and> b_metadata widget_body \<noteq> Null)
   \<and> res_status (fst (postComponent sample_db widget_body)) = 201
   \<and> (truthy (b_name (widget_body\<lparr> b_registryId := None, b_registrySlug := Some ''shadcn'' \<rparr>)) \<and> truthy (b_slug (widget_body\<lparr> b_registryId := None, b_registrySlug := Some ''shadcn'' \<rparr>)) \<and> truthy (b_type (widget_body\<lparr> b_registryId := None, b_registrySlug := Some ''shadcn'' \<rparr>))
        \<and> ((b_registryId (widget_body\<lparr> b_registryId := None, b_registrySlug := Some ''shadcn'' \<rparr>) = Some (1::int) \<and> (1::int) \<noteq> 0
              \<and> list_ex (\<lambda>r. reg_id r = (1::int)) (db_registries sample_db))
           \<or> ((b_registryId (widget_body\<lparr> b_registryId := None, b_registrySlug := Some ''shadcn'' \<rparr>) = None \<or> b_registryId (widget_body\<lparr> b_registryId := None, b_registrySlug := Some ''shadcn'' \<rparr>) = Some 0) \<and> truthy (b_registrySlug (widget_body\<lparr> b_registryId := None, b_registrySlug := Some ''shadcn'' \<rparr>))
              \<and> map_option reg_id (db_findOneRegistryBySlug sample_db (the (b_registrySlug (widget_body\<lparr> b_registryId := None, b_registrySlug := Some ''shadcn'' \<rparr>))))
                  = Some (1::int)))
        \<and> \<not> list_ex (\<lambda>c. comp_registryId c = (1::int) \<and> comp_slug c = the (b_slug (widget_body\<lparr> b_registryId := None, b_registrySlug := Some ''shadcn'' \<rparr>)))
                   (db_components sample_db)
        \<and> b_dependencies (widget_body\<lparr> b_registryId := None, b_registrySlug := Some ''shadcn'' \<rparr>) \<noteq> Null \<and> b_status (widget_body\<lparr> b_registryId := None, b_registrySlug := Some ''shadcn'' \<rparr>) \<noteq> Null \<and> b_metadata (widget_body\<lparr> b_registryId := None, b_registrySlug := Some ''shadcn'' \<rparr>) \<noteq> Null)
   \<and> res_status (fst (postComponent sample_db (widget_body\<lparr> b_registryId := None, b_registrySlug := Some ''shadcn'' \<rparr>))) = 201
   \<and> map (\<lambda>c. (comp_name c, comp_registryId c, comp_type c, comp_status c))
         (db_components (snd (postComponent sample_db (widget_body\<lparr> b_registryId := None, b_registrySlug := Some ''shadcn'' \<rparr>))))
       = [(''Button'', 1, ''input-control'', ''stable''), (''Card'', 1, ''container'', ''beta''),
          (''Orphan'', 7, ''biz'', ''alpha''), (''Gauge'', 1, ''widget'', ''experimental'')]
   \<and> (truthy (b_name (widget_body\<lparr> b_registryId := None, b_registrySlug := Some ''nowhere'' \<rparr>)) \<and> truthy (b_slug (widget_body\<lparr> b_registryId := None, b_registrySlug := Some ''nowhere'' \<rparr>)) \<and> truthy (b_type (widget_body\<lparr> b_registryId := None, b_registrySlug := Some ''nowhere'' \<rparr>))
        \<and> (b_registryId (widget_body\<lparr> b_registryId := None, b_registrySlug := Some ''nowhere'' \<rparr>) = None \<or> b_registryId (widget_body\<lparr> b_registryId := None, b_registrySlug := Some ''nowhere'' \<rparr>) = Some 0) \<and> truthy (b_registrySlug (widget_body\<lparr> b_registryId := None, b_registrySlug := Some ''nowhere'' \<rparr>))
        \<and> db_findOneRegistryBySlug sample_db (the (b_registrySlug (widget_body\<lparr> b_registryId := None, b_registrySlug := Some ''nowhere'' \<rparr>))) = None)
   \<and> postComponent sample_db (widget_body\<lparr> b_registryId := None, b_registrySlug := Some ''nowhere'' \<rparr>)
       = (\<lparr> res_status = 404,
            res_body = JsonError (''Registry with slug '' @ [CHR 0x22]
                                  @ the (b_registrySlug (widget_body\<lparr> b_registryId := None, b_registrySlug := Some ''nowhere'' \<rparr>))
                                  @ [CHR 0x22] @ '' not found'') \<rparr>, sample_db)
   \<and> (truthy (b_name (widget_body\<lparr> b_status := Null \<rparr>)) \<and> truthy (b_slug (widget_body\<lparr> b_status := Null \<rparr>)) \<and> truthy (b_type (widget_body\<lparr> b_status := Null \<rparr>))
        \<and> ((b_registryId (widget_body\<lparr> b_status := Null \<rparr>) = Some (1::int) \<and> (1::int) \<noteq> 0)
           \<or> ((b_registryId (widget_body\<lparr> b_status := Null \<rparr>) = None \<or> b_registryId (widget_body\<lparr> b_status := Null \<rparr>) = Some 0) \<and> truthy (b_registrySlug (widget_body\<lparr> b_status := Null \<rparr>))
              \<and> map_option reg_id (db_findOneRegistryBySlug sample_db (the (b_registrySlug (widget_body\<lparr> b_status := Null \<rparr>))))
                  = Some (1::int)))
        \<and> (b_dependencies (widget_body\<lparr> b_status := Null \<rparr>) = Null \<or> b_status (widget_body\<lparr> b_status := Null \<rparr>) = Null \<or> b_metadata (widget_body\<lparr> b_status := Null \<rparr>) = Null))
   \<and> res_status (fst (postComponent sample_db (widget_body\<lparr> b_status := Null \<rparr>))) = 500
     \<and> snd (postComponent sample_db (widget_body\<lparr> b_status := Null \<rparr>)) = sample_db
   \<and> the (b_type widget_body) = ''widget''"
proof -
  have h1: "truthy (b_name widget_body) \<and> truthy (b_slug widget_body) \<and> truthy (b_type widget_body)
        \<and> ((b_registryId widget_body = Some (1::int) \<and> (1::int) \<noteq> 0
              \<and> list_ex (\<lambda>r. reg_id r = (1::int)) (db_registries sample_db))
           \<or> ((b_registryId widget_body = None \<or> b_registryId widget_body = Some 0) \<and> truthy (b_registrySlug widget_body)
              \<and> map_option reg_id (db_findOneRegistryBySlug sample_db (the (b_registrySlug widget_body)))
                  = Some (1::int)))
        \<and> \<not> list_ex (\<lambda>c. comp_registryId c = (1::int) \<and> comp_slug c = the (b_slug widget_body))
                   (db_components sample_db)
        \<and> b_dependencies widget_body \<noteq> Null \<and> b_status widget_body \<noteq> Null \<and> b_metadata widget_body \<noteq> Null"
    by code_simp
  have h2: "truthy (b_name (widget_body\<lparr> b_registryId := None, b_registrySlug := Some ''shadcn'' \<rparr>)) \<and> truthy (b_slug (widget_body\<lparr> b_registryId := None, b_registrySlug := Some ''shadcn'' \<rparr>)) \<and> truthy (b_type (widget_body\<lparr> b_registryId := None, b_registrySlug := Some ''shadcn'' \<rparr>))
        \<and> ((b_registryId (widget_body\<lparr> b_registryId := None, b_registrySlug := Some ''shadcn'' \<rparr>) = Some (1::int) \<and> (1::int) \<noteq> 0
              \<and> list_ex (\<lambda>r. reg_id r = (1::int)) (db_registries sample_db))
           \<or> ((b_registryId (widget_body\<lparr> b_registryId := None, b_registrySlug := Some ''shadcn'' \<rparr>) = None \<or> b_registryId (widget_body\<lparr> b_registryId := None, b_registrySlug := Some ''shadcn'' \<rparr>) = Some 0) \<and> truthy (b_registrySlug (widget_body\<lparr> b_registryId := None, b_registrySlug := Some ''shadcn'' \<rparr>))
              \<and> map_option reg_id (db_findOneRegistryBySlug sample_db (the (b_registrySlug (widget_body\<lparr> b_registryId := None, b_registrySlug := Some ''shadcn'' \<rparr>))))
                  = Some (1::int)))
        \<and> \<not> list_ex (\<lambda>c. comp_registryId c = (1::int) \<and> comp_slug c = the (b_slug (widget_body\<lparr> b_registryId := None, b_registrySlug := Some ''shadcn'' \<rparr>)))
                   (db_components sample_db)
        \<and> b_dependencies (widget_body\<lparr> b_registryId := None, b_registrySlug := Some ''shadcn'' \<rparr>) \<noteq> Null \<and> b_status (widget_body\<lparr> b_registryId := None, b_registrySlug := Some ''shadcn'' \<rparr>) \<noteq> Null \<and> b_metadata (widget_body\<lparr> b_registryId := None, b_registrySlug := Some ''shadcn'' \<rparr>) \<noteq> Null"
    by code_simp
  have h3: "truthy (b_name (widget_body\<lparr> b_registryId := None, b_registrySlug := Some ''nowhere'' \<rparr>)) \<and> truthy (b_slug (widget_body\<lparr> b_registryId := None, b_registrySlug := Some ''nowhere'' \<rparr>)) \<and> truthy (b_type (widget_body\<lparr> b_registryId := None, b_registrySlug := Some ''nowhere'' \<rparr>))
        \<and> (b_registryId (widget_body\<lparr> b_registryId := None, b_registrySlug := Some ''nowhere'' \<rparr>) = None \<or> b_registryId (widget_body\<lparr> b_registryId := None, b_registrySlug := Some ''nowhere'' \<rparr>) = Some 0) \<and> truthy (b_registrySlug (widget_body\<lparr> b_registryId := None, b_registrySlug := Some ''nowhere'' \<rparr>))
        \<and> db_findOneRegistryBySlug sample_db (the (b_registrySlug (widget_body\<lparr> b_registryId := None, b_registrySlug := Some ''nowhere'' \<rparr>))) = None"
    by code_simp
  have h4: "truthy (b_name (widget_body\<lparr> b_status := Null \<rparr>)) \<and> truthy (b_slug (widget_body\<lparr> b_status := Null \<rparr>)) \<and> truthy (b_type (widget_body\<lparr> b_status := Null \<rparr>))
        \<and> ((b_registryId (widget_body\<lparr> b_status := Null \<rparr>) = Some (1::int) \<and> (1::int) \<noteq> 0)
           \<or> ((b_registryId (widget_body\<lparr> b_status := Null \<rparr>) = None \<or> b_registryId (widget_body\<lparr> b_status := Null \<rparr>) = Some 0) \<and> truthy (b_registrySlug (widget_body\<lparr> b_status := Null \<rparr>))
              \<and> map_option reg_id (db_findOneRegistryBySlug sample_db (the (b_registrySlug (widget_body\<lparr> b_status := Null \<rparr>))))
                  = Some (1::int)))
        \<and> (b_dependencies (widget_body\<lparr> b_status := Null \<rparr>) = Null \<or> b_status (widget_body\<lparr> b_status := Null \<rparr>) = Null \<or> b_metadata (widget_body\<lparr> b_status := Null \<rparr>) = Null)"
    by code_simp
  from postComponent_checks_presence_only [of sample_db widget_body 1, THEN conjunct2,
      THEN conjunct2, THEN conjunct2, THEN conjunct1, rule_format, OF h1]
  have c1: "res_status (fst (postComponent sample_db widget_body)) = 201"
    by auto
  from postComponent_checks_presence_only [of sample_db "widget_body\<lparr> b_registryId := None, b_registrySlug := Some ''shadcn'' \<rparr>" 1, THEN conjunct2,
      THEN conjunct2, THEN conjunct2, THEN conjunct1, rule_format, OF h2]
  have c2: "res_status (fst (postComponent sample_db (widget_body\<lparr> b_registryId := None, b_registrySlug := Some ''shadcn'' \<rparr>))) = 201"
    by auto
  have c2b: "map (\<lambda>c. (comp_name c, comp_registryId c, comp_type c, comp_status c))
         (db_components (snd (postComponent sample_db (widget_body\<lparr> b_registryId := None, b_registrySlug := Some ''shadcn'' \<rparr>))))
       = [(''Button'', 1, ''input-control'', ''stable''), (''Card'', 1, ''container'', ''beta''),
          (''Orphan'', 7, ''biz'', ''alpha''), (''Gauge'', 1, ''widget'', ''experimental'')]"
    by code_simp
  have c3: "postComponent sample_db (widget_body\<lparr> b_registryId := None, b_registrySlug := Some ''nowhere'' \<rparr>)
       = (\<lparr> res_status = 404,
            res_body = JsonError (''Registry with slug '' @ [CHR 0x22]
                                  @ the (b_registrySlug (widget_body\<lparr> b_registryId := None, b_registrySlug := Some ''nowhere'' \<rparr>))
                                  @ [CHR 0x22] @ '' not found'') \<rparr>, sample_db)"
    by (rule postComponent_checks_presence_only [of sample_db "widget_body\<lparr> b_registryId := None, b_registrySlug := Some ''nowhere'' \<rparr>" 1, THEN conjunct2,
          THEN conjunct2, THEN conjunct1, rule_format, OF h3])
  have c4: "res_status (fst (postComponent sample_db (widget_body\<lparr> b_status := Null \<rparr>))) = 500
     \<and> snd (postComponent sample_db (widget_body\<lparr> b_status := Null \<rparr>)) = sample_db"
    by (rule postComponent_checks_presence_only [of sample_db "widget_body\<lparr> b_status := Null \<rparr>" 1, THEN conjunct2,
          THEN conjunct2, THEN conjunct2, THEN conjunct2, rule_format, OF h4])
  have d: "the (b_type widget_body) = ''widget''"
    by code_simp
  show ?thesis
    by (intro conjI h1 c1 h2 c2 c2b h3 c3 h4 c4 [THEN conjunct1] c4 [THEN conjunct2] d)
qed

end
